theory Spec2Isabelle
  imports Complex_Main
begin

section \<open>The cash-flow forecast engine of spenditure\<close>

text \<open>
  This theory embeds \<^verbatim>\<open>generateMockForecast\<close> (the consolidated version with loan
  projection; the older \<^verbatim>\<open>src/App.tsx\<close> has the same horizon scan, aggregation, salary
  loop and daily walk, reads one \<^verbatim>\<open>deductionsAmount\<close> instead of a list of deductions and has
  no loan projection) together with the part of the JavaScript \<^verbatim>\<open>Date\<close> object it uses.

  Modelling decisions:
  \<^item> A \<^verbatim>\<open>Date\<close> is its time value, the number of milliseconds since 1970-01-01T00:00Z,
    an \<open>int\<close>. The local time zone is taken to be UTC without daylight saving, so the
    local-time accessors (\<^verbatim>\<open>getDate\<close>, \<^verbatim>\<open>setMonth\<close>, ...) and the UTC rendering
    \<^verbatim>\<open>toISOString\<close> read the same calendar day. Invalid dates and the range limit of
    time values are not modelled.
  \<^item> A \<^verbatim>\<open>number\<close> holding an amount is a rational; floating-point rounding, infinities
    and NaN are not modelled.
  \<^item> \<^verbatim>\<open>new Date()\<close> reads the wall clock. The engine takes the clock as a function
    from the number of the reading to the time value read: reading 0 gives \<^verbatim>\<open>today\<close>,
    reading \<open>k + 1\<close> is the \<^verbatim>\<open>createdAt\<close> of the salary payment pushed in iteration \<open>k\<close>.
  \<^item> The key \<^verbatim>\<open>d.toISOString().split('T')[0]\<close> is the triple (year, month counted
    from 1, day of month) that the text \<^verbatim>\<open>YYYY-MM-DD\<close> renders.
  \<^item> The template strings of a projected salary payment are kept as constructors:
    \<^verbatim>\<open>`salary-${dateKey}-${loopCount}`\<close> is \<open>SalaryId dateKey loopCount\<close> and
    \<^verbatim>\<open>`Salary Payment (${frequency})`\<close> is \<open>SalaryPayment frequency\<close>.
\<close>

subsection \<open>Time values and the calendar (ECMAScript, Date objects)\<close>

type_synonym Date = int

definition msPerDay :: int where
  "msPerDay = 24 * 60 * 60 * 1000"

definition Day :: "Date \<Rightarrow> int" where
  "Day t = t div msPerDay"

definition TimeWithinDay :: "Date \<Rightarrow> int" where
  "TimeWithinDay t = t mod msPerDay"

definition DayFromYear :: "int \<Rightarrow> int" where
  "DayFromYear y =
     365 * (y - 1970) + (y - 1969) div 4 - (y - 1901) div 100 + (y - 1601) div 400"

definition DaysInYear :: "int \<Rightarrow> int" where
  "DaysInYear y =
     (if y mod 4 \<noteq> 0 then 365
      else if y mod 100 \<noteq> 0 then 366
      else if y mod 400 \<noteq> 0 then 365
      else 366)"

definition InLeapYear :: "int \<Rightarrow> bool" where
  "InLeapYear y = (DaysInYear y = 366)"

text \<open>The largest year whose first day is not after day \<open>d\<close>: an estimate from the mean
  length of a year, corrected by at most one.\<close>

definition YearFromDay :: "int \<Rightarrow> int" where
  "YearFromDay d =
     (let y = 1970 + (400 * d) div 146097
      in if d < DayFromYear y then y - 1
         else if DayFromYear (y + 1) \<le> d then y + 1
         else y)"

definition DayWithinYear :: "int \<Rightarrow> int" where
  "DayWithinYear d = d - DayFromYear (YearFromDay d)"

text \<open>Day within the year of the first day of month \<open>m\<close> (0 is January).\<close>

definition MonthStart :: "bool \<Rightarrow> int \<Rightarrow> int" where
  "MonthStart leap m =
     (let l = (if leap then 1 else 0)
      in if m = 0 then 0
         else if m = 1 then 31
         else if m = 2 then 59 + l
         else if m = 3 then 90 + l
         else if m = 4 then 120 + l
         else if m = 5 then 151 + l
         else if m = 6 then 181 + l
         else if m = 7 then 212 + l
         else if m = 8 then 243 + l
         else if m = 9 then 273 + l
         else if m = 10 then 304 + l
         else 334 + l)"

definition MonthFromDay :: "int \<Rightarrow> int" where
  "MonthFromDay d =
     (let w = DayWithinYear d;
          l = (if InLeapYear (YearFromDay d) then 1 else 0)
      in if w < 31 then 0
         else if w < 59 + l then 1
         else if w < 90 + l then 2
         else if w < 120 + l then 3
         else if w < 151 + l then 4
         else if w < 181 + l then 5
         else if w < 212 + l then 6
         else if w < 243 + l then 7
         else if w < 273 + l then 8
         else if w < 304 + l then 9
         else if w < 334 + l then 10
         else 11)"

definition DateFromDay :: "int \<Rightarrow> int" where
  "DateFromDay d =
     DayWithinYear d - MonthStart (InLeapYear (YearFromDay d)) (MonthFromDay d) + 1"

text \<open>\<^verbatim>\<open>MakeDay\<close>: months outside 0..11 carry into the year, days outside the month carry
  into the neighbouring months.\<close>

definition MakeDay :: "int \<Rightarrow> int \<Rightarrow> int \<Rightarrow> int" where
  "MakeDay y m dt =
     (let ym = y + m div 12; mn = m mod 12
      in DayFromYear ym + MonthStart (InLeapYear ym) mn + dt - 1)"

definition getFullYear :: "Date \<Rightarrow> int" where
  "getFullYear t = YearFromDay (Day t)"

definition getMonth :: "Date \<Rightarrow> int" where
  "getMonth t = MonthFromDay (Day t)"

definition getDate :: "Date \<Rightarrow> int" where
  "getDate t = DateFromDay (Day t)"

definition getDay :: "Date \<Rightarrow> int" where
  "getDay t = (Day t + 4) mod 7"

text \<open>\<^verbatim>\<open>d.setHours(0, 0, 0, 0)\<close>\<close>

definition setHours0 :: "Date \<Rightarrow> Date" where
  "setHours0 t = Day t * msPerDay"

definition setDate :: "Date \<Rightarrow> int \<Rightarrow> Date" where
  "setDate t dt = MakeDay (getFullYear t) (getMonth t) dt * msPerDay + TimeWithinDay t"

definition setMonth :: "Date \<Rightarrow> int \<Rightarrow> Date" where
  "setMonth t m = MakeDay (getFullYear t) m (getDate t) * msPerDay + TimeWithinDay t"

definition setFullYear :: "Date \<Rightarrow> int \<Rightarrow> Date" where
  "setFullYear t y = MakeDay y (getMonth t) (getDate t) * msPerDay + TimeWithinDay t"

text \<open>\<^verbatim>\<open>new Date(year, month, day)\<close>: a year from 0 to 99 means 1900 + year.\<close>

definition newDate :: "int \<Rightarrow> int \<Rightarrow> int \<Rightarrow> Date" where
  "newDate y m dt =
     MakeDay (if 0 \<le> y \<and> y \<le> 99 then 1900 + y else y) m dt * msPerDay"

type_synonym dateKey = "int \<times> int \<times> int"

text \<open>\<^verbatim>\<open>d.toISOString().split('T')[0]\<close>\<close>

definition toDateKey :: "Date \<Rightarrow> dateKey" where
  "toDateKey t = (getFullYear t, getMonth t + 1, getDate t)"

subsection \<open>The records of the application\<close>

datatype income_status = Outstanding | Paid

datatype salary_frequency = Weekly | Fortnightly | Monthly

datatype payment_frequency = LoanMonthly | LoanQuarterly | LoanAnnually

datatype item_id = StoredId string | SalaryId dateKey nat

datatype item_client = ClientName string | SalaryPayment salary_frequency

record IncomeItem =
  income_id :: item_id
  client :: item_client
  income_amount :: rat
  dueDate :: Date
  status :: income_status
  income_createdAt :: Date

record ExpenseItem =
  expense_id :: string
  vendor :: string
  expense_amount :: rat
  category :: string
  expense_date :: Date
  description :: string
  expense_createdAt :: Date

record DeductionItem =
  deduction_name :: string
  deduction_amount :: rat

record LoanItem =
  loan_id :: string
  loanName :: string
  loan_amount :: rat
  paymentFrequency :: payment_frequency
  nextPaymentDate :: Date

record UserProfile =
  profile_currentBalance :: rat
  salaryIncome :: rat
  salaryFrequency :: salary_frequency
  lastUpdated :: Date
  profile_name :: string
  numberOfDaysOffPerMonth :: "rat option"
  deductions :: "DeductionItem list"
  loans :: "LoanItem list"

record ForecastPoint =
  date :: Date
  balance :: rat

record Forecast =
  forecastData :: "ForecastPoint list"
  potentialShortfallDate :: "Date option"
  projectedSalaryPayments :: "IncomeItem list"

subsection \<open>Horizon\<close>

text \<open>The two \<^verbatim>\<open>forEach\<close> scans for \<^verbatim>\<open>maxRelevantDate\<close>.\<close>

fun scanIncomes :: "Date \<Rightarrow> IncomeItem list \<Rightarrow> Date \<Rightarrow> Date" where
  "scanIncomes today [] maxRelevantDate = maxRelevantDate"
| "scanIncomes today (inc # incs) maxRelevantDate =
     scanIncomes today incs
       (if status inc = Outstanding \<and> dueDate inc \<ge> today
        then (if dueDate inc > maxRelevantDate then dueDate inc else maxRelevantDate)
        else maxRelevantDate)"

fun scanExpenses :: "Date \<Rightarrow> ExpenseItem list \<Rightarrow> Date \<Rightarrow> Date" where
  "scanExpenses today [] maxRelevantDate = maxRelevantDate"
| "scanExpenses today (ex # exs) maxRelevantDate =
     scanExpenses today exs
       (if expense_date ex \<ge> today
        then (if expense_date ex > maxRelevantDate then expense_date ex else maxRelevantDate)
        else maxRelevantDate)"

definition maxRelevantDate :: "Date \<Rightarrow> IncomeItem list \<Rightarrow> ExpenseItem list \<Rightarrow> Date" where
  "maxRelevantDate today incomes expenses =
     scanExpenses today expenses (scanIncomes today incomes today)"

definition daysToProject :: "Date \<Rightarrow> IncomeItem list \<Rightarrow> ExpenseItem list \<Rightarrow> int" where
  "daysToProject today incomes expenses =
     (maxRelevantDate today incomes expenses - today) div msPerDay"

definition effectiveProjectionDays :: "Date \<Rightarrow> IncomeItem list \<Rightarrow> ExpenseItem list \<Rightarrow> int" where
  "effectiveProjectionDays today incomes expenses =
     max (daysToProject today incomes expenses) 30"

definition chartEndDate :: "Date \<Rightarrow> int \<Rightarrow> Date" where
  "chartEndDate today days = setDate today (getDate today + days)"

subsection \<open>Aggregation by day\<close>

type_synonym transactions = "dateKey \<rightharpoonup> rat"

text \<open>\<^verbatim>\<open>transactionsByDay.get(dateKey) || 0\<close>\<close>

definition getOr0 :: "transactions \<Rightarrow> dateKey \<Rightarrow> rat" where
  "getOr0 m k = (case m k of None \<Rightarrow> 0 | Some v \<Rightarrow> v)"

fun addIncomes :: "Date \<Rightarrow> IncomeItem list \<Rightarrow> transactions \<Rightarrow> transactions" where
  "addIncomes today [] m = m"
| "addIncomes today (inc # incs) m =
     addIncomes today incs
       (if status inc = Outstanding \<and> dueDate inc \<ge> today
        then m(toDateKey (dueDate inc) \<mapsto> getOr0 m (toDateKey (dueDate inc)) + income_amount inc)
        else m)"

fun addExpenses :: "Date \<Rightarrow> ExpenseItem list \<Rightarrow> transactions \<Rightarrow> transactions" where
  "addExpenses today [] m = m"
| "addExpenses today (ex # exs) m =
     addExpenses today exs
       (if expense_date ex \<ge> today
        then m(toDateKey (expense_date ex) \<mapsto>
                 getOr0 m (toDateKey (expense_date ex)) - expense_amount ex)
        else m)"

subsection \<open>Salary projection\<close>

definition totalMonthlyDeductions :: "DeductionItem list \<Rightarrow> rat" where
  "totalMonthlyDeductions ds = foldl (\<lambda>sum ded. sum + deduction_amount ded) 0 ds"

definition numPayrollsPerMonth :: "salary_frequency \<Rightarrow> rat" where
  "numPayrollsPerMonth f = (case f of Monthly \<Rightarrow> 1 | Fortnightly \<Rightarrow> 2 | Weekly \<Rightarrow> 4)"

definition salaryPerPayPeriod :: "UserProfile \<Rightarrow> rat" where
  "salaryPerPayPeriod p =
     (salaryIncome p - totalMonthlyDeductions (deductions p))
       / numPayrollsPerMonth (salaryFrequency p)"

definition getNextPayday :: "Date \<Rightarrow> salary_frequency \<Rightarrow> Date option" where
  "getNextPayday currentDate frequency =
     (let nextPay = setHours0 currentDate
      in case frequency of
           Monthly \<Rightarrow>
             (let nextPay = setDate nextPay 15;
                  nextPay = (if nextPay < currentDate
                             then setDate (setMonth nextPay (getMonth nextPay + 1)) 15
                             else nextPay);
                  nextPay = (if getDate nextPay < getDate currentDate
                                \<and> getMonth nextPay = getMonth currentDate
                             then setMonth nextPay (getMonth nextPay + 1)
                             else nextPay);
                  nextPay = (if getMonth nextPay \<noteq>
                                (getMonth currentDate + (if nextPay < currentDate then 1 else 0)) mod 12
                             then newDate (getFullYear nextPay) (getMonth nextPay) 0
                             else nextPay)
              in Some (setHours0 nextPay))
         | Fortnightly \<Rightarrow>
             (let day = getDate currentDate;
                  nextPay = (if day \<le> 1 then setDate nextPay 1
                             else if day \<le> 15 then setDate nextPay 15
                             else setDate (setMonth nextPay (getMonth nextPay + 1)) 1);
                  nextPay = (if nextPay < currentDate
                             then setDate nextPay (getDate nextPay + 14)
                             else nextPay)
              in Some (setHours0 nextPay))
         | Weekly \<Rightarrow>
             (let dayOfWeek = getDay nextPay;
                  daysUntilNextMonday = (if dayOfWeek = 0 then 1
                                         else if dayOfWeek = 1 then 7
                                         else 8 - dayOfWeek);
                  nextPay = setDate nextPay (getDate nextPay + daysUntilNextMonday);
                  nextPay = (if nextPay < currentDate
                             then setDate nextPay (getDate nextPay + 7)
                             else nextPay)
              in Some (setHours0 nextPay)))"

record salary_state =
  tempDate :: Date
  loopCount :: nat
  salaryTransactions :: transactions
  salaryPayments :: "IncomeItem list"

text \<open>The \<^verbatim>\<open>while\<close> loop over paydays; \<^verbatim>\<open>break\<close> returns the state as it is.\<close>

function salaryLoop ::
  "(nat \<Rightarrow> Date) \<Rightarrow> salary_frequency \<Rightarrow> rat \<Rightarrow> Date \<Rightarrow> salary_state \<Rightarrow> salary_state" where
  "salaryLoop clock frequency perPeriod projectionLimitDate s =
     (if tempDate s \<le> projectionLimitDate \<and> loopCount s < 100
      then (case getNextPayday (tempDate s) frequency of
              None \<Rightarrow> s
            | Some nextPay \<Rightarrow>
                if nextPay \<le> projectionLimitDate
                then salaryLoop clock frequency perPeriod projectionLimitDate
                       \<lparr> tempDate = setDate nextPay (getDate nextPay + 1),
                         loopCount = loopCount s + 1,
                         salaryTransactions =
                           (salaryTransactions s)(toDateKey nextPay \<mapsto>
                              getOr0 (salaryTransactions s) (toDateKey nextPay) + perPeriod),
                         salaryPayments = salaryPayments s @
                           [\<lparr> income_id = SalaryId (toDateKey nextPay) (loopCount s),
                              client = SalaryPayment frequency,
                              income_amount = perPeriod,
                              dueDate = nextPay,
                              status = Outstanding,
                              income_createdAt = clock (loopCount s + 1) \<rparr>] \<rparr>
                else s)
      else s)"
  by pat_completeness auto
termination
  by (relation "measure (\<lambda>(clock, frequency, perPeriod, lim, s). 100 - loopCount s)") auto

declare salaryLoop.simps [simp del]

definition projectSalary ::
  "(nat \<Rightarrow> Date) \<Rightarrow> Date \<Rightarrow> int \<Rightarrow> UserProfile option \<Rightarrow> transactions \<Rightarrow> salary_state" where
  "projectSalary clock today days userProfile m =
     (let s0 = \<lparr> tempDate = today, loopCount = 0, salaryTransactions = m, salaryPayments = [] \<rparr>
      in case userProfile of
           None \<Rightarrow> s0
         | Some p \<Rightarrow>
             if salaryIncome p > 0
             then (let chartEnd = chartEndDate today days;
                       projectionLimitDate = setDate chartEnd (getDate chartEnd + 1)
                   in salaryLoop clock (salaryFrequency p) (salaryPerPayPeriod p)
                        projectionLimitDate s0)
             else s0)"

subsection \<open>Loan projection\<close>

definition advanceLoan :: "payment_frequency \<Rightarrow> Date \<Rightarrow> Date" where
  "advanceLoan f nextLoanPayment =
     setHours0 (case f of
                  LoanMonthly \<Rightarrow> setMonth nextLoanPayment (getMonth nextLoanPayment + 1)
                | LoanQuarterly \<Rightarrow> setMonth nextLoanPayment (getMonth nextLoanPayment + 3)
                | LoanAnnually \<Rightarrow> setFullYear nextLoanPayment (getFullYear nextLoanPayment + 1))"

text \<open>One turn of the inner \<^verbatim>\<open>for\<close> loop, on the map and the local \<^verbatim>\<open>nextLoanPayment\<close>.\<close>

definition loanStep ::
  "Date \<Rightarrow> LoanItem \<Rightarrow> int \<Rightarrow> transactions \<times> Date \<Rightarrow> transactions \<times> Date" where
  "loanStep today loan i st =
     (let m = fst st; nextLoanPayment = snd st;
          currentIterationDate = setHours0 (setDate today (getDate today + i))
      in if currentIterationDate = nextLoanPayment
         then (m(toDateKey currentIterationDate \<mapsto>
                   getOr0 m (toDateKey currentIterationDate) - loan_amount loan),
               advanceLoan (paymentFrequency loan) nextLoanPayment)
         else (m, nextLoanPayment))"

function loanLoop ::
  "Date \<Rightarrow> LoanItem \<Rightarrow> int \<Rightarrow> int \<Rightarrow> transactions \<times> Date \<Rightarrow> transactions \<times> Date" where
  "loanLoop today loan days i st =
     (if i \<le> days then loanLoop today loan days (i + 1) (loanStep today loan i st) else st)"
  by pat_completeness auto
termination
  by (relation "measure (\<lambda>(today, loan, days, i, st). nat (days + 1 - i))") auto

declare loanLoop.simps [simp del]

definition projectLoan :: "Date \<Rightarrow> int \<Rightarrow> LoanItem \<Rightarrow> transactions \<Rightarrow> transactions \<times> Date" where
  "projectLoan today days loan m =
     loanLoop today loan days 0 (m, setHours0 (nextPaymentDate loan))"

fun projectLoans :: "Date \<Rightarrow> int \<Rightarrow> LoanItem list \<Rightarrow> transactions \<Rightarrow> transactions" where
  "projectLoans today days [] m = m"
| "projectLoans today days (loan # ls) m =
     projectLoans today days ls (fst (projectLoan today days loan m))"

subsection \<open>Daily walk\<close>

record walk_state =
  currentIterationDate :: Date
  currentProjectedBalance :: rat
  points :: "ForecastPoint list"
  shortfallDate :: "Date option"
  hasShortfall :: bool

definition walkStep :: "transactions \<Rightarrow> walk_state \<Rightarrow> walk_state" where
  "walkStep m w =
     (let dailyNetChange = getOr0 m (toDateKey (currentIterationDate w));
          b = currentProjectedBalance w + dailyNetChange;
          flag = (b < 0 \<and> \<not> hasShortfall w)
      in \<lparr> currentIterationDate =
             setDate (currentIterationDate w) (getDate (currentIterationDate w) + 1),
           currentProjectedBalance = b,
           points = points w @ [\<lparr> date = currentIterationDate w, balance = b \<rparr>],
           shortfallDate = (if flag then Some (currentIterationDate w) else shortfallDate w),
           hasShortfall = (if flag then True else hasShortfall w) \<rparr>)"

function walkLoop :: "transactions \<Rightarrow> int \<Rightarrow> int \<Rightarrow> walk_state \<Rightarrow> walk_state" where
  "walkLoop m days i w =
     (if i \<le> days then walkLoop m days (i + 1) (walkStep m w) else w)"
  by pat_completeness auto
termination
  by (relation "measure (\<lambda>(m, days, i, w). nat (days + 1 - i))") auto

declare walkLoop.simps [simp del]

subsection \<open>The engine\<close>

definition transactionsByDay ::
  "(nat \<Rightarrow> Date) \<Rightarrow> IncomeItem list \<Rightarrow> ExpenseItem list \<Rightarrow> UserProfile option \<Rightarrow> transactions" where
  "transactionsByDay clock incomes expenses userProfile =
     (let today = setHours0 (clock 0);
          days = effectiveProjectionDays today incomes expenses;
          m = addExpenses today expenses (addIncomes today incomes Map.empty);
          m = salaryTransactions (projectSalary clock today days userProfile m)
      in case userProfile of
           None \<Rightarrow> m
         | Some p \<Rightarrow>
             if length (loans p) > 0 then projectLoans today days (loans p) m else m)"

definition generateMockForecast ::
  "(nat \<Rightarrow> Date) \<Rightarrow> rat \<Rightarrow> IncomeItem list \<Rightarrow> ExpenseItem list \<Rightarrow> UserProfile option \<Rightarrow> Forecast" where
  "generateMockForecast clock currentBalance incomes expenses userProfile =
     (let today = setHours0 (clock 0);
          days = effectiveProjectionDays today incomes expenses;
          m0 = addExpenses today expenses (addIncomes today incomes Map.empty);
          sal = projectSalary clock today days userProfile m0;
          m = transactionsByDay clock incomes expenses userProfile;
          w = walkLoop m days 0
                \<lparr> currentIterationDate = setHours0 today,
                  currentProjectedBalance = currentBalance,
                  points = [\<lparr> date = today, balance = currentBalance \<rparr>],
                  shortfallDate = None,
                  hasShortfall = False \<rparr>
      in \<lparr> forecastData = points w,
           potentialShortfallDate = shortfallDate w,
           projectedSalaryPayments = salaryPayments sal \<rparr>)"

subsection \<open>Named conditions and example inputs\<close>

text \<open>The two filters of the horizon scan and of the aggregation, as predicates.\<close>

definition relevantIncome :: "Date \<Rightarrow> IncomeItem \<Rightarrow> bool" where
  "relevantIncome today inc = (status inc = Outstanding \<and> dueDate inc \<ge> today)"

definition relevantExpense :: "Date \<Rightarrow> ExpenseItem \<Rightarrow> bool" where
  "relevantExpense today ex = (expense_date ex \<ge> today)"

text \<open>No salary projection and no loan projection: the profile is \<^verbatim>\<open>null\<close>, or its
  salary is not positive and its list of loans is empty.\<close>

definition projectionDisabled :: "UserProfile option \<Rightarrow> bool" where
  "projectionDisabled userProfile =
     (case userProfile of
        None \<Rightarrow> True
      | Some p \<Rightarrow> \<not> salaryIncome p > 0 \<and> \<not> length (loans p) > 0)"

text \<open>A clock that reads 2026-01-01T00:00:00Z first and one second more at every later
  reading, and one that starts five seconds later on the same day.\<close>

text \<open>A projected salary payment with its \<^verbatim>\<open>createdAt\<close> blanked.\<close>

definition withoutCreatedAt :: "IncomeItem \<Rightarrow> IncomeItem" where
  "withoutCreatedAt e = e\<lparr> income_createdAt := 0 \<rparr>"

definition exampleClock :: "nat \<Rightarrow> Date" where
  "exampleClock k = 1767225600000 + 1000 * int k"

definition laterClock :: "nat \<Rightarrow> Date" where
  "laterClock k = 1767225605000 + 1000 * int k"

text \<open>Gross salary 30000 a month, deductions of 3000 and 2000, no loans.\<close>

definition salaryProfile :: UserProfile where
  "salaryProfile =
     \<lparr> profile_currentBalance = 0, salaryIncome = 30000, salaryFrequency = Monthly,
       lastUpdated = 1767225600000, profile_name = ''A'', numberOfDaysOffPerMonth = None,
       deductions = [\<lparr> deduction_name = ''tax'', deduction_amount = 3000 \<rparr>,
                     \<lparr> deduction_name = ''pension'', deduction_amount = 2000 \<rparr>],
       loans = [] \<rparr>"

text \<open>A monthly loan of 2000 whose next payment is on 2026-01-04, three days after the
  first reading of \<open>exampleClock\<close>, and one whose next payment was on 2025-12-01.\<close>

definition exampleLoan :: LoanItem where
  "exampleLoan =
     \<lparr> loan_id = ''l1'', loanName = ''car'', loan_amount = 2000,
       paymentFrequency = LoanMonthly, nextPaymentDate = 1767484800000 \<rparr>"

definition pastLoan :: LoanItem where
  "pastLoan =
     \<lparr> loan_id = ''l0'', loanName = ''old'', loan_amount = 500,
       paymentFrequency = LoanMonthly, nextPaymentDate = 1764547200000 \<rparr>"

text \<open>The state of the salary loop of \<open>salaryProfile\<close> after the paydays of January 2026:
  the cursor is at 2026-02-01.\<close>

definition februaryState :: salary_state where
  "februaryState =
     \<lparr> tempDate = 1769904000000, loopCount = 2, salaryTransactions = Map.empty,
       salaryPayments = [] \<rparr>"

text \<open>An expense of 100 dated 2026-01-02 and an outstanding income of 500 due on
  2026-01-05.\<close>

definition tomorrowExpense :: ExpenseItem where
  "tomorrowExpense =
     \<lparr> expense_id = ''e1'', vendor = ''rent'', expense_amount = 100, category = ''housing'',
       expense_date = 1767312000000, description = ''room'',
       expense_createdAt = 1767225600000 \<rparr>"

definition recoveryIncome :: IncomeItem where
  "recoveryIncome =
     \<lparr> income_id = StoredId ''i1'', client = ClientName ''acme'', income_amount = 500,
       dueDate = 1767571200000, status = Outstanding, income_createdAt = 1767225600000 \<rparr>"

definition loanProfile :: UserProfile where
  "loanProfile =
     \<lparr> profile_currentBalance = 0, salaryIncome = 0, salaryFrequency = Monthly,
       lastUpdated = 1767225600000, profile_name = ''B'', numberOfDaysOffPerMonth = None,
       deductions = [], loans = [exampleLoan] \<rparr>"

section \<open>Properties\<close>

subsection \<open>Calendar arithmetic\<close>

lemma msPerDay_pos: "0 < msPerDay"
  by (simp add: msPerDay_def)

lemma MonthFromDay_range: "0 \<le> MonthFromDay d \<and> MonthFromDay d \<le> 11"
  by (simp add: MonthFromDay_def Let_def)

lemma MakeDay_inverse:
  "MakeDay (YearFromDay d) (MonthFromDay d) (DateFromDay d + n) = d + n"
proof -
  have "MonthFromDay d div 12 = 0" and "MonthFromDay d mod 12 = MonthFromDay d"
    using MonthFromDay_range [of d] by simp_all
  then show ?thesis
    by (simp add: MakeDay_def DateFromDay_def DayWithinYear_def)
qed

lemma setDate_add: "setDate t (getDate t + n) = t + n * msPerDay"
proof -
  have "setDate t (getDate t + n) = (Day t + n) * msPerDay + t mod msPerDay"
    by (simp add: setDate_def getDate_def getFullYear_def getMonth_def MakeDay_inverse
        TimeWithinDay_def)
  also have "\<dots> = (t div msPerDay * msPerDay + t mod msPerDay) + n * msPerDay"
    by (simp add: Day_def algebra_simps)
  finally show ?thesis by simp
qed

lemma Day_add: "Day (t + n * msPerDay) = Day t + n"
  using msPerDay_pos by (simp add: Day_def)

lemma setHours0_add: "setHours0 (t + n * msPerDay) = setHours0 t + n * msPerDay"
  by (simp only: setHours0_def Day_add distrib_right)

lemma Day_setHours0: "Day (setHours0 t) = Day t"
  using msPerDay_pos by (simp add: setHours0_def Day_def)

lemma setHours0_idem: "setHours0 (setHours0 t) = setHours0 t"
  by (simp add: setHours0_def [of "setHours0 t"] Day_setHours0) (simp add: setHours0_def)

lemma setHours0_le: "setHours0 t \<le> t"
proof -
  have "t div msPerDay * msPerDay + t mod msPerDay = t" by simp
  moreover have "0 \<le> t mod msPerDay" using msPerDay_pos by simp
  ultimately show ?thesis unfolding setHours0_def Day_def by linarith
qed

lemma toDateKey_Day: 
  assumes "toDateKey a = toDateKey b" shows "Day a = Day b"
proof -
  from assms have y: "YearFromDay (Day a) = YearFromDay (Day b)"
    and m: "MonthFromDay (Day a) = MonthFromDay (Day b)"
    and d: "DateFromDay (Day a) = DateFromDay (Day b)"
    by (simp_all add: toDateKey_def getFullYear_def getMonth_def getDate_def)
  have "Day a = MakeDay (YearFromDay (Day a)) (MonthFromDay (Day a)) (DateFromDay (Day a) + 0)"
    by (simp only: MakeDay_inverse)
  also have "\<dots> = MakeDay (YearFromDay (Day b)) (MonthFromDay (Day b)) (DateFromDay (Day b) + 0)"
    by (simp only: y m d)
  also have "\<dots> = Day b" by (simp only: MakeDay_inverse)
  finally show ?thesis .
qed

lemma toDateKey_add_neq:
  "i \<noteq> j \<Longrightarrow> toDateKey (t + i * msPerDay) \<noteq> toDateKey (t + j * msPerDay)"
  using toDateKey_Day [of "t + i * msPerDay" "t + j * msPerDay"] by (auto simp: Day_add)

text \<open>The year of a day is the year whose first day is the latest one not after it, a year
  has 365 or 366 days, and moving a date to the next month moves it by 28 to 31 days.\<close>

lemma div_step:
  assumes "0 < c"
  shows "((x::int) + 1) div c = x div c + (if (x + 1) mod c = 0 then 1 else 0)"
proof (cases "x mod c + 1 < c")
  case True
  have "x + 1 = c * (x div c) + (x mod c + 1)" by simp
  moreover have "0 \<le> x mod c + 1" using assms by (simp add: add_nonneg_nonneg)
  ultimately have d: "(x + 1) div c = x div c" and m: "(x + 1) mod c = x mod c + 1"
    using True int_div_pos_eq [of "x + 1" c "x div c" "x mod c + 1"]
      int_mod_pos_eq [of "x + 1" c "x div c" "x mod c + 1"] by simp_all
  have "0 \<le> x mod c" using assms by simp
  with d m show ?thesis by simp
next
  case False
  have "x mod c < c" using assms by simp
  with False have e: "x mod c + 1 = c" by simp
  have "x + 1 = c * (x div c) + (x mod c + 1)" by simp
  then have "x + 1 = c * (x div c + 1)" by (simp only: e) (simp add: algebra_simps)
  then show ?thesis using assms by simp
qed

lemma DayFromYear_step: "DayFromYear (y + 1) = DayFromYear y + DaysInYear y"
proof -
  have a: "(y + 1 - 1969) div 4 = (y - 1969) div 4 + (if y mod 4 = 0 then 1 else 0)"
  proof -
    have "(y - 1968) mod 4 = y mod 4" using mod_diff_eq [of y 4 1968] by simp
    then show ?thesis using div_step [of 4 "y - 1969"] by simp
  qed
  have b: "(y + 1 - 1901) div 100 = (y - 1901) div 100 + (if y mod 100 = 0 then 1 else 0)"
  proof -
    have "(y - 1900) mod 100 = y mod 100" using mod_diff_eq [of y 100 1900] by simp
    then show ?thesis using div_step [of 100 "y - 1901"] by simp
  qed
  have c: "(y + 1 - 1601) div 400 = (y - 1601) div 400 + (if y mod 400 = 0 then 1 else 0)"
  proof -
    have "(y - 1600) mod 400 = y mod 400" using mod_diff_eq [of y 400 1600] by simp
    then show ?thesis using div_step [of 400 "y - 1601"] by simp
  qed
  have d1: "y mod 100 = 0 \<Longrightarrow> y mod 4 = 0"
    using mod_mod_cancel [of 4 100 y] by simp
  have d2: "y mod 400 = 0 \<Longrightarrow> y mod 100 = 0"
    using mod_mod_cancel [of 100 400 y] by simp
  show ?thesis
    unfolding DayFromYear_def DaysInYear_def a b c using d1 d2 by auto
qed

lemma div_bounds:
  assumes "0 < c"
  shows "c * ((x::int) div c) \<le> x \<and> x < c * (x div c) + c"
proof -
  have "c * (x div c) + x mod c = x" by simp
  moreover have "0 \<le> x mod c" using assms by simp
  moreover have "x mod c < c" using assms by simp
  ultimately show ?thesis by linarith
qed

lemma DayFromYear_bounds:
  "146097 * (y - 1970) - 506 \<le> 400 * DayFromYear y
   \<and> 400 * DayFromYear y \<le> 146097 * (y - 1970) + 589"
proof -
  define q4 where "q4 = (y - 1969) div 4"
  define q100 where "q100 = (y - 1901) div 100"
  define q400 where "q400 = (y - 1601) div 400"
  have a: "4 * q4 \<le> y - 1969 \<and> y - 1969 < 4 * q4 + 4"
    unfolding q4_def by (rule div_bounds) simp
  have b: "100 * q100 \<le> y - 1901 \<and> y - 1901 < 100 * q100 + 100"
    unfolding q100_def by (rule div_bounds) simp
  have c: "400 * q400 \<le> y - 1601 \<and> y - 1601 < 400 * q400 + 400"
    unfolding q400_def by (rule div_bounds) simp
  have "DayFromYear y = 365 * (y - 1970) + q4 - q100 + q400"
    by (simp only: DayFromYear_def q4_def q100_def q400_def)
  then show ?thesis
    using conjunct1 [OF a] conjunct2 [OF a] conjunct1 [OF b] conjunct2 [OF b]
      conjunct1 [OF c] conjunct2 [OF c]
    by simp
qed

lemma YearFromDay_correct:
  "DayFromYear (YearFromDay d) \<le> d \<and> d < DayFromYear (YearFromDay d + 1)"
proof -
  define k where "k = (400 * d) div 146097"
  have e: "146097 * k \<le> 400 * d \<and> 400 * d < 146097 * k + 146097"
    unfolding k_def by (rule div_bounds) simp
  have lo: "DayFromYear (1970 + k - 1) \<le> d"
    using conjunct2 [OF DayFromYear_bounds [of "1970 + k - 1"]] conjunct1 [OF e] by simp
  have hi: "d < DayFromYear (1970 + k + 1 + 1)"
    using conjunct1 [OF DayFromYear_bounds [of "1970 + k + 1 + 1"]] conjunct2 [OF e] by simp
  have "YearFromDay d =
          (if d < DayFromYear (1970 + k) then 1970 + k - 1
           else if DayFromYear (1970 + k + 1) \<le> d then 1970 + k + 1
           else 1970 + k)"
    by (simp only: YearFromDay_def Let_def k_def)
  then show ?thesis
    using lo hi by (auto simp: algebra_simps)
qed

lemma DaysInYear_leap: "DaysInYear y = (if InLeapYear y then 366 else 365)"
  by (simp add: InLeapYear_def DaysInYear_def)

lemma MakeDay_next_month:
  assumes "0 \<le> m" and "m \<le> 11"
  shows "\<exists>n. 28 \<le> n \<and> n \<le> 31 \<and> MakeDay y (m + 1) dt = MakeDay y m dt + n"
proof -
  from assms consider (within) "m \<le> 10" | (december) "m = 11" by linarith
  then show ?thesis
  proof cases
    case within
    with assms have d: "m div 12 = 0" "(m + 1) div 12 = 0" and r: "m mod 12 = m" "(m + 1) mod 12 = m + 1"
      by simp_all
    have "28 \<le> MonthStart l (m + 1) - MonthStart l m \<and> MonthStart l (m + 1) - MonthStart l m \<le> 31"
      for l
      using assms within by (auto simp add: MonthStart_def Let_def; presburger)
    then have "28 \<le> MakeDay y (m + 1) dt - MakeDay y m dt
        \<and> MakeDay y (m + 1) dt - MakeDay y m dt \<le> 31"
      by (simp add: MakeDay_def Let_def d r)
    then show ?thesis
      by (intro exI [of _ "MakeDay y (m + 1) dt - MakeDay y m dt"]) simp
  next
    case december
    have "MakeDay y (11 + 1) dt = MakeDay y 11 dt + 31"
      by (simp add: MakeDay_def Let_def MonthStart_def DayFromYear_step DaysInYear_leap)
    with december show ?thesis by (intro exI [of _ 31]) simp
  qed
qed

lemma TimeWithinDay_setHours0: "TimeWithinDay (setHours0 t) = 0"
  by (simp add: TimeWithinDay_def setHours0_def)

lemma setHours0_days: "setHours0 (n * msPerDay) = n * msPerDay"
  using msPerDay_pos by (simp add: setHours0_def Day_def)

lemma setMonth_next:
  "\<exists>n. 28 \<le> n \<and> n \<le> 31
     \<and> setHours0 (setMonth (setHours0 t) (getMonth (setHours0 t) + 1))
         = setHours0 t + n * msPerDay"
proof -
  let ?t = "setHours0 t"
  let ?y = "YearFromDay (Day ?t)" and ?m = "MonthFromDay (Day ?t)" and ?d = "DateFromDay (Day ?t)"
  from MakeDay_next_month [of ?m ?y ?d] MonthFromDay_range [of "Day ?t"]
  obtain n where n: "28 \<le> n" "n \<le> 31" and step: "MakeDay ?y (?m + 1) ?d = MakeDay ?y ?m ?d + n"
    by blast
  have "MakeDay ?y ?m (?d + 0) = Day ?t + 0" by (rule MakeDay_inverse)
  then have inv: "MakeDay ?y ?m ?d = Day ?t" by (simp only: add_0_right)
  have "MakeDay ?y (?m + 1) ?d = Day ?t + n"
    by (simp only: step inv)
  then have "setMonth ?t (getMonth ?t + 1) = (Day t + n) * msPerDay"
    by (simp add: setMonth_def getFullYear_def getMonth_def getDate_def TimeWithinDay_setHours0
        Day_setHours0)
  then have "setHours0 (setMonth ?t (getMonth ?t + 1)) = ?t + n * msPerDay"
    by (simp only: setHours0_days) (simp add: setHours0_def algebra_simps)
  with n show ?thesis by blast
qed

subsection \<open>The daily walk\<close>

lemma walkLoop_unfold:
  "i \<le> days \<Longrightarrow> walkLoop m days i w = walkLoop m days (i + 1) (walkStep m w)"
  by (subst walkLoop.simps) simp

lemma walkLoop_done: "\<not> i \<le> days \<Longrightarrow> walkLoop m days i w = w"
  by (subst walkLoop.simps) simp

lemma upt_shift_map: "map f [0..<Suc n] = f 0 # map (\<lambda>k. f (Suc k)) [0..<n]"
proof -
  have "[0..<Suc n] = 0 # [Suc 0..<Suc n]"
    by (rule upt_conv_Cons) simp
  then have "[0..<Suc n] = 0 # map Suc [0..<n]"
    by (simp only: map_Suc_upt)
  then show ?thesis by (simp add: comp_def)
qed

lemma walkLoop_char:
  "\<exists>ps. points (walkLoop m days i w) = points w @ ps
      \<and> length ps = nat (days + 1 - i)
      \<and> map date ps =
          map (\<lambda>k. currentIterationDate w + int k * msPerDay) [0..<nat (days + 1 - i)]
      \<and> shortfallDate (walkLoop m days i w) =
          (if hasShortfall w then shortfallDate w
           else case find (\<lambda>p. balance p < 0) ps of
                  None \<Rightarrow> shortfallDate w
                | Some p \<Rightarrow> Some (date p))"
proof (induction m days i w rule: walkLoop.induct)
  case (1 m days i w)
  show ?case
  proof (cases "i \<le> days")
    case False
    then show ?thesis by (simp add: walkLoop_done)
  next
    case True
    let ?w = "walkStep m w"
    let ?r = "walkLoop m days (i + 1) ?w"
    let ?c = "currentIterationDate w"
    let ?b = "currentProjectedBalance w + getOr0 m (toDateKey ?c)"
    let ?p = "\<lparr> date = ?c, balance = ?b \<rparr>"
    from 1 [OF True] obtain ps where
      pts: "points ?r = points ?w @ ps"
      and len: "length ps = nat (days + 1 - (i + 1))"
      and dts: "map date ps =
          map (\<lambda>k. currentIterationDate ?w + int k * msPerDay) [0..<nat (days + 1 - (i + 1))]"
      and sf: "shortfallDate ?r =
          (if hasShortfall ?w then shortfallDate ?w
           else case find (\<lambda>p. balance p < 0) ps of
                  None \<Rightarrow> shortfallDate ?w
                | Some p \<Rightarrow> Some (date p))"
      by blast
    have n: "nat (days + 1 - i) = Suc (nat (days + 1 - (i + 1)))"
      using True by simp
    have wpts: "points ?w = points w @ [?p]"
      by (simp add: walkStep_def Let_def)
    have wdate: "currentIterationDate ?w = ?c + msPerDay"
      using setDate_add [of ?c 1] by (simp add: walkStep_def Let_def)
    have whas: "hasShortfall ?w = (if ?b < 0 \<and> \<not> hasShortfall w then True else hasShortfall w)"
      by (simp add: walkStep_def Let_def)
    have wsf: "shortfallDate ?w = (if ?b < 0 \<and> \<not> hasShortfall w then Some ?c else shortfallDate w)"
      by (simp add: walkStep_def Let_def)
    have c1: "points ?r = points w @ (?p # ps)"
      by (simp add: pts wpts)
    have c2: "length (?p # ps) = nat (days + 1 - i)"
      by (simp add: len n)
    have c3: "map date (?p # ps) =
          map (\<lambda>k. ?c + int k * msPerDay) [0..<nat (days + 1 - i)]"
      by (simp only: n upt_shift_map) (simp add: dts wdate algebra_simps)
    have c4: "shortfallDate ?r =
          (if hasShortfall w then shortfallDate w
           else case find (\<lambda>p. balance p < 0) (?p # ps) of
                  None \<Rightarrow> shortfallDate w
                | Some p \<Rightarrow> Some (date p))"
      by (simp add: sf whas wsf split: option.splits)
    show ?thesis
      unfolding walkLoop_unfold [OF True] using c1 c2 c3 c4 by blast
  qed
qed

lemma walkLoop_flat:
  "\<exists>ps. points (walkLoop Map.empty days i w) = points w @ ps
      \<and> map balance ps = replicate (nat (days + 1 - i)) (currentProjectedBalance w)"
proof (induction "Map.empty :: transactions" days i w rule: walkLoop.induct)
  case (1 days i w)
  show ?case
  proof (cases "i \<le> days")
    case False
    then show ?thesis by (simp add: walkLoop_done)
  next
    case True
    let ?w = "walkStep Map.empty w"
    from 1 [OF True] obtain ps where
      pts: "points (walkLoop Map.empty days (i + 1) ?w) = points ?w @ ps"
      and bal: "map balance ps =
          replicate (nat (days + 1 - (i + 1))) (currentProjectedBalance ?w)"
      by blast
    have n: "nat (days + 1 - i) = Suc (nat (days + 1 - (i + 1)))"
      using True by simp
    let ?p = "\<lparr> date = currentIterationDate w, balance = currentProjectedBalance w \<rparr>"
    have wpts: "points ?w = points w @ [?p]"
      by (simp add: walkStep_def Let_def getOr0_def)
    have wbal: "currentProjectedBalance ?w = currentProjectedBalance w"
      by (simp add: walkStep_def Let_def getOr0_def)
    have "points (walkLoop Map.empty days (i + 1) ?w) = points w @ (?p # ps)"
      by (simp only: pts wpts append_assoc append_Cons append_Nil)
    moreover have "map balance (?p # ps)
            = replicate (nat (days + 1 - i)) (currentProjectedBalance w)"
      by (simp add: bal n wbal)
    ultimately show ?thesis
      unfolding walkLoop_unfold [OF True] by blast
  qed
qed

text \<open>The points pushed by the walk, in closed form: the point of day \<open>k\<close> carries the
  starting balance plus the net changes of the days 0 to \<open>k\<close>.\<close>

lemma walkLoop_points:
  "points (walkLoop m days i w) =
     points w @
     map (\<lambda>k. \<lparr> date = currentIterationDate w + int k * msPerDay,
                 balance = currentProjectedBalance w
                   + (\<Sum>j\<le>k. getOr0 m (toDateKey (currentIterationDate w + int j * msPerDay))) \<rparr>)
       [0..<nat (days + 1 - i)]"
proof (induction m days i w rule: walkLoop.induct)
  case (1 m days i w)
  show ?case
  proof (cases "i \<le> days")
    case False
    then show ?thesis by (simp add: walkLoop_done)
  next
    case True
    let ?w = "walkStep m w"
    let ?c = "currentIterationDate w"
    let ?b = "currentProjectedBalance w"
    let ?g = "\<lambda>j. getOr0 m (toDateKey (?c + int j * msPerDay))"
    have n: "nat (days + 1 - i) = Suc (nat (days + 1 - (i + 1)))"
      using True by simp
    have wpts: "points ?w = points w @ [\<lparr> date = ?c, balance = ?b + ?g 0 \<rparr>]"
      by (simp add: walkStep_def Let_def)
    have wdate: "currentIterationDate ?w = ?c + msPerDay"
      using setDate_add [of ?c 1] by (simp add: walkStep_def Let_def)
    have wbal: "currentProjectedBalance ?w = ?b + ?g 0"
      by (simp add: walkStep_def Let_def)
    have shift: "?c + msPerDay + int j * msPerDay = ?c + int (Suc j) * msPerDay" for j
      by (simp add: algebra_simps)
    have sums: "?b + ?g 0 + (\<Sum>j\<le>k. ?g (Suc j)) = ?b + (\<Sum>j\<le>Suc k. ?g j)" for k
      by (simp only: sum.atMost_Suc_shift [of ?g k] add.assoc)
    have "points (walkLoop m days (i + 1) ?w) =
            points w @ \<lparr> date = ?c, balance = ?b + ?g 0 \<rparr> #
            map (\<lambda>k. \<lparr> date = ?c + int (Suc k) * msPerDay,
                        balance = ?b + (\<Sum>j\<le>Suc k. ?g j) \<rparr>)
              [0..<nat (days + 1 - (i + 1))]"
      by (simp only: 1 [OF True] wpts wdate wbal shift sums append_assoc append_Cons append_Nil)
    then show ?thesis
      by (simp only: walkLoop_unfold [OF True] n upt_shift_map) simp
  qed
qed

subsection \<open>The returned series and the shortfall date\<close>

lemma gmf_walk:
  "\<exists>ps. forecastData (generateMockForecast clock bal incs exps up)
          = \<lparr> date = setHours0 (clock 0), balance = bal \<rparr> # ps
      \<and> length ps = nat (effectiveProjectionDays (setHours0 (clock 0)) incs exps + 1)
      \<and> map date ps =
          map (\<lambda>k. setHours0 (clock 0) + int k * msPerDay)
            [0..<nat (effectiveProjectionDays (setHours0 (clock 0)) incs exps + 1)]
      \<and> potentialShortfallDate (generateMockForecast clock bal incs exps up)
          = map_option date (find (\<lambda>p. balance p < 0) ps)"
proof -
  let ?today = "setHours0 (clock 0)"
  let ?days = "effectiveProjectionDays ?today incs exps"
  let ?w0 = "\<lparr> currentIterationDate = setHours0 ?today,
               currentProjectedBalance = bal,
               points = [\<lparr> date = ?today, balance = bal \<rparr>],
               shortfallDate = None,
               hasShortfall = False \<rparr>"
  let ?m = "transactionsByDay clock incs exps up"
  from walkLoop_char [of ?m ?days 0 ?w0] obtain ps where
    pts: "points (walkLoop ?m ?days 0 ?w0) = points ?w0 @ ps"
    and len: "length ps = nat (?days + 1 - 0)"
    and dts: "map date ps =
        map (\<lambda>k. currentIterationDate ?w0 + int k * msPerDay) [0..<nat (?days + 1 - 0)]"
    and sf: "shortfallDate (walkLoop ?m ?days 0 ?w0) =
        (if hasShortfall ?w0 then shortfallDate ?w0
         else case find (\<lambda>p. balance p < 0) ps of
                None \<Rightarrow> shortfallDate ?w0
              | Some p \<Rightarrow> Some (date p))"
    by blast
  have fd: "forecastData (generateMockForecast clock bal incs exps up)
              = points (walkLoop ?m ?days 0 ?w0)"
    by (simp add: generateMockForecast_def Let_def)
  have ps: "potentialShortfallDate (generateMockForecast clock bal incs exps up)
              = shortfallDate (walkLoop ?m ?days 0 ?w0)"
    by (simp add: generateMockForecast_def Let_def)
  have a: "forecastData (generateMockForecast clock bal incs exps up)
          = \<lparr> date = ?today, balance = bal \<rparr> # ps"
    by (simp add: fd pts)
  have b: "length ps = nat (?days + 1)" using len by simp
  have c: "map date ps = map (\<lambda>k. ?today + int k * msPerDay) [0..<nat (?days + 1)]"
    using dts by (simp add: setHours0_idem)
  have d: "potentialShortfallDate (generateMockForecast clock bal incs exps up)
          = map_option date (find (\<lambda>p. balance p < 0) ps)"
    by (simp add: ps sf split: option.splits)
  from a b c d show ?thesis by blast
qed

lemma gmf_points:
  "forecastData (generateMockForecast clock bal incs exps up) =
     \<lparr> date = setHours0 (clock 0), balance = bal \<rparr> #
     map (\<lambda>k. \<lparr> date = setHours0 (clock 0) + int k * msPerDay,
                 balance = bal
                   + (\<Sum>j\<le>k. getOr0 (transactionsByDay clock incs exps up)
                              (toDateKey (setHours0 (clock 0) + int j * msPerDay))) \<rparr>)
       [0..<nat (effectiveProjectionDays (setHours0 (clock 0)) incs exps + 1)]"
  by (simp add: generateMockForecast_def Let_def walkLoop_points setHours0_idem)

lemma effectiveProjectionDays_ge: "30 \<le> effectiveProjectionDays today incs exps"
  by (simp add: effectiveProjectionDays_def)

text \<open>
  Claim C7. For every clock, balance, list of incomes, list of expenses and profile, the
  point at index 0 of the returned series has the balance \<open>currentBalance\<close> and the date
  \<^verbatim>\<open>today\<close> (the first clock reading set to midnight): the seed is pushed before the walk
  and no adjustment of any day is applied to it.
\<close>

theorem first_point_is_seed:
  "forecastData (generateMockForecast clock currentBalance incomes expenses userProfile) ! 0
     = \<lparr> date = setHours0 (clock 0), balance = currentBalance \<rparr>"
  using gmf_walk [of clock currentBalance incomes expenses userProfile] by auto

text \<open>
  Claim C2. The points after the seed are the days of the daily walk: there is one for
  each day from today to today + \<open>effectiveProjectionDays\<close> days, and the point of day \<open>k\<close>
  carries the running balance, that is \<open>currentBalance\<close> plus the aggregated net changes
  of the days 0 to \<open>k\<close>. The returned shortfall date is the date of the first of these
  points whose running balance is strictly negative, and \<^verbatim>\<open>null\<close> when there is none;
  \<open>find\<close> returns the first match only, so a later recovery of the balance does not
  change it.
\<close>

theorem shortfall_is_first_negative_day:
  "tl (forecastData (generateMockForecast clock currentBalance incomes expenses userProfile))
     = map (\<lambda>k. \<lparr> date = setHours0 (clock 0) + int k * msPerDay,
                   balance = currentBalance
                     + (\<Sum>j\<le>k. getOr0 (transactionsByDay clock incomes expenses userProfile)
                                (toDateKey (setHours0 (clock 0) + int j * msPerDay))) \<rparr>)
         [0..<nat (effectiveProjectionDays (setHours0 (clock 0)) incomes expenses + 1)]
   \<and> potentialShortfallDate
         (generateMockForecast clock currentBalance incomes expenses userProfile)
     = map_option date
         (find (\<lambda>p. balance p < 0)
            (tl (forecastData
                   (generateMockForecast clock currentBalance incomes expenses userProfile))))"
proof -
  have "potentialShortfallDate
         (generateMockForecast clock currentBalance incomes expenses userProfile)
     = map_option date
         (find (\<lambda>p. balance p < 0)
            (tl (forecastData
                   (generateMockForecast clock currentBalance incomes expenses userProfile))))"
    using gmf_walk [of clock currentBalance incomes expenses userProfile] by auto
  then show ?thesis
    by (simp add: gmf_points [of clock currentBalance incomes expenses userProfile])
qed

text \<open>
  Claim C2 at the clock reading 2026-01-01 with balance 0, an expense of 100 on 2026-01-02
  and an income of 500 on 2026-01-05: the balance is -100 from 2026-01-02 to 2026-01-04 and
  400 from 2026-01-05 on, and the shortfall date is 2026-01-02, the first negative day,
  although the balance recovers.
\<close>

theorem shortfall_is_first_negative_day_witness:
  "potentialShortfallDate
     (generateMockForecast exampleClock 0 [recoveryIncome] [tomorrowExpense] None)
     = Some 1767312000000
   \<and> map balance
       (take 7 (forecastData
                  (generateMockForecast exampleClock 0 [recoveryIncome] [tomorrowExpense] None)))
     = [0, 0, - 100, - 100, - 100, 400, 400]"
proof -
  have first_negative: "map_option date
         (find (\<lambda>p. balance p < 0)
            (tl (forecastData
                   (generateMockForecast exampleClock 0 [recoveryIncome] [tomorrowExpense] None))))
       = Some 1767312000000"
    by code_simp
  have balances: "map balance
       (take 7 (forecastData
                  (generateMockForecast exampleClock 0 [recoveryIncome] [tomorrowExpense] None)))
     = [0, 0, - 100, - 100, - 100, 400, 400]"
    by code_simp
  note shortfall = shortfall_is_first_negative_day [where clock = exampleClock
      and currentBalance = 0 and incomes = "[recoveryIncome]"
      and expenses = "[tomorrowExpense]" and userProfile = None, THEN conjunct2]
  show ?thesis
    by (simp add: shortfall first_negative balances)
qed

text \<open>
  Claim C1, as stated, asks for a series without duplicate dates. With no income, no
  expense and no profile, and the clock reading 2026-01-01, the dates of the returned
  series are not distinct: the seed and the first day of the walk both carry today's date.
\<close>

theorem series_has_duplicate_today:
  "\<not> distinct (map date (forecastData (generateMockForecast exampleClock 100 [] [] None)))"
  by code_simp

text \<open>
  Claim C1, amended. The returned series has \<open>effectiveProjectionDays + 2\<close> points. Its
  first point is the seed, dated today; the points after it are dated today, today + 1 day,
  ..., today + \<open>effectiveProjectionDays\<close> days, one per day in increasing order. Today's date
  therefore occurs twice, at index 0 and at index 1, and from index 1 on the dates are
  consecutive days without gap or repetition.
\<close>

theorem series_length_and_dates:
  "length (forecastData (generateMockForecast clock currentBalance incomes expenses userProfile))
     = nat (effectiveProjectionDays (setHours0 (clock 0)) incomes expenses + 2)
   \<and> map date (forecastData (generateMockForecast clock currentBalance incomes expenses userProfile))
     = setHours0 (clock 0)
       # map (\<lambda>k. setHours0 (clock 0) + int k * msPerDay)
           [0..<nat (effectiveProjectionDays (setHours0 (clock 0)) incomes expenses + 1)]"
proof -
  have "nat (effectiveProjectionDays (setHours0 (clock 0)) incomes expenses + 2)
          = Suc (nat (effectiveProjectionDays (setHours0 (clock 0)) incomes expenses + 1))"
    using effectiveProjectionDays_ge [of "setHours0 (clock 0)" incomes expenses] by simp
  then show ?thesis
    using gmf_walk [of clock currentBalance incomes expenses userProfile] by auto
qed

subsection \<open>Horizon and filters\<close>

lemma scanIncomes_fold:
  "scanIncomes today incs mx = fold max (map dueDate (filter (relevantIncome today) incs)) mx"
  by (induction incs arbitrary: mx) (simp_all add: relevantIncome_def max_def)

lemma scanExpenses_fold:
  "scanExpenses today exs mx = fold max (map expense_date (filter (relevantExpense today) exs)) mx"
  by (induction exs arbitrary: mx) (simp_all add: relevantExpense_def max_def)

lemma maxRelevantDate_Max:
  "maxRelevantDate today incs exs =
     Max (set (today # map dueDate (filter (relevantIncome today) incs)
                     @ map expense_date (filter (relevantExpense today) exs)))"
  by (simp only: Max.set_eq_fold maxRelevantDate_def scanIncomes_fold scanExpenses_fold
      fold_append comp_apply)

lemma scanIncomes_filter:
  "scanIncomes today (filter (relevantIncome today) incs) mx = scanIncomes today incs mx"
  by (simp add: scanIncomes_fold)

lemma scanExpenses_filter:
  "scanExpenses today (filter (relevantExpense today) exs) mx = scanExpenses today exs mx"
  by (simp add: scanExpenses_fold)

lemma addIncomes_filter:
  "addIncomes today (filter (relevantIncome today) incs) m = addIncomes today incs m"
  by (induction incs arbitrary: m) (simp_all add: relevantIncome_def)

lemma addExpenses_filter:
  "addExpenses today (filter (relevantExpense today) exs) m = addExpenses today exs m"
  by (induction exs arbitrary: m) (simp_all add: relevantExpense_def)

lemma effectiveProjectionDays_filter:
  "effectiveProjectionDays today (filter (relevantIncome today) incs)
       (filter (relevantExpense today) exs)
     = effectiveProjectionDays today incs exs"
  by (simp add: effectiveProjectionDays_def daysToProject_def maxRelevantDate_def
      scanIncomes_filter scanExpenses_filter)

lemma transactionsByDay_filter:
  "transactionsByDay clock (filter (relevantIncome (setHours0 (clock 0))) incs)
       (filter (relevantExpense (setHours0 (clock 0))) exs) up
     = transactionsByDay clock incs exs up"
  by (simp add: transactionsByDay_def effectiveProjectionDays_filter addIncomes_filter
      addExpenses_filter)

text \<open>
  Claim C3. The horizon length \<open>effectiveProjectionDays\<close> is the larger of 30 and the number
  of whole days from today to the latest date among today, the due dates of the incomes
  that are outstanding and due today or later, and the dates of the expenses dated today
  or later. Records that fail these filters contribute nothing: the engine returns the same
  result when they are removed from its input.
\<close>

theorem horizon_and_filters:
  "effectiveProjectionDays today incomes expenses
     = max ((Max (set (today # map dueDate (filter (relevantIncome today) incomes)
                             @ map expense_date (filter (relevantExpense today) expenses)))
             - today) div msPerDay) 30
   \<and> generateMockForecast clock currentBalance
        (filter (relevantIncome (setHours0 (clock 0))) incomes)
        (filter (relevantExpense (setHours0 (clock 0))) expenses) userProfile
     = generateMockForecast clock currentBalance incomes expenses userProfile"
  by (simp add: effectiveProjectionDays_def daysToProject_def maxRelevantDate_Max
      generateMockForecast_def effectiveProjectionDays_filter addIncomes_filter
      addExpenses_filter transactionsByDay_filter del: Max.set_eq_fold)

subsection \<open>No data\<close>

lemma transactionsByDay_disabled:
  "projectionDisabled up \<Longrightarrow> transactionsByDay clock [] [] up = Map.empty"
  by (cases up) (simp_all add: projectionDisabled_def transactionsByDay_def projectSalary_def)

lemma effectiveProjectionDays_empty: "effectiveProjectionDays today [] [] = 30"
  by (simp add: effectiveProjectionDays_def daysToProject_def maxRelevantDate_def)

lemma find_flat_nonneg:
  "map balance ps = replicate n b \<Longrightarrow> \<not> b < 0 \<Longrightarrow> find (\<lambda>p. balance p < 0) ps = None"
proof (induction ps arbitrary: n)
  case Nil
  then show ?case by simp
next
  case (Cons p ps)
  then show ?case by (cases n) auto
qed

text \<open>
  Claim C6, as stated, gives the series 31 points when no data is supplied. With no income,
  no expense and no profile the returned series does not have 31 points (it has 32).
\<close>

theorem series_length_without_data:
  "length (forecastData (generateMockForecast exampleClock 100 [] [] None)) \<noteq> 31"
  by code_simp

text \<open>
  Claim C6, amended. If the lists of incomes and expenses are empty and the profile is
  absent (or its salary is not positive and it has no loans), then the horizon is 30 days,
  the series has exactly 32 points (the seed and the 31 days from today to today + 30
  days), every point has the balance \<open>currentBalance\<close>, and the shortfall date is
  \<^verbatim>\<open>null\<close> when \<open>currentBalance\<close> is not negative (it is today when \<open>currentBalance\<close> is
  negative).
\<close>

theorem flat_series_without_data:
  assumes "projectionDisabled userProfile"
  shows "effectiveProjectionDays (setHours0 (clock 0)) [] [] = 30
     \<and> map balance (forecastData (generateMockForecast clock currentBalance [] [] userProfile))
         = replicate 32 currentBalance
     \<and> length (forecastData (generateMockForecast clock currentBalance [] [] userProfile)) = 32
     \<and> potentialShortfallDate (generateMockForecast clock currentBalance [] [] userProfile)
         = (if currentBalance < 0 then Some (setHours0 (clock 0)) else None)"
proof -
  let ?today = "setHours0 (clock 0)"
  let ?r = "generateMockForecast clock currentBalance [] [] userProfile"
  let ?w0 = "\<lparr> currentIterationDate = setHours0 ?today,
               currentProjectedBalance = currentBalance,
               points = [\<lparr> date = ?today, balance = currentBalance \<rparr>],
               shortfallDate = None,
               hasShortfall = False \<rparr>"
  have fd: "forecastData ?r = points (walkLoop Map.empty 30 0 ?w0)"
    by (simp add: generateMockForecast_def Let_def transactionsByDay_disabled [OF assms]
        effectiveProjectionDays_empty)
  from walkLoop_flat [of 30 0 ?w0] obtain qs where
    q1: "points (walkLoop Map.empty 30 0 ?w0) = points ?w0 @ qs"
    and q2: "map balance qs = replicate (nat (30 + 1 - 0)) (currentProjectedBalance ?w0)"
    by blast
  from gmf_walk [of clock currentBalance "[]" "[]" userProfile] obtain ps where
    p1: "forecastData ?r = \<lparr> date = ?today, balance = currentBalance \<rparr> # ps"
    and p3: "map date ps = map (\<lambda>k. ?today + int k * msPerDay)
               [0..<nat (effectiveProjectionDays ?today [] [] + 1)]"
    and p4: "potentialShortfallDate ?r = map_option date (find (\<lambda>p. balance p < 0) ps)"
    by blast
  have same: "ps = qs" using fd q1 p1 by simp
  have bal: "map balance ps = replicate 31 currentBalance"
    using q2 same by simp
  have dts: "map date ps = map (\<lambda>k. ?today + int k * msPerDay) [0..<Suc 30]"
    using p3 by (simp add: effectiveProjectionDays_empty)
  have "(32::nat) = Suc 31" by simp
  then have r32: "replicate 32 currentBalance = currentBalance # replicate 31 currentBalance"
    by (simp only: replicate_Suc)
  have a: "map balance (forecastData ?r) = replicate 32 currentBalance"
    by (simp add: p1 bal r32)
  have b: "length (forecastData ?r) = 32"
    using arg_cong [OF a, of length] by simp
  have c: "potentialShortfallDate ?r = (if currentBalance < 0 then Some ?today else None)"
  proof (cases "currentBalance < 0")
    case False
    then show ?thesis by (simp add: p4 find_flat_nonneg [OF bal])
  next
    case True
    from bal obtain p ps' where ps: "ps = p # ps'" by (cases ps) auto
    have "balance p = currentBalance" using bal ps by (simp add: numeral_eq_Suc)
    moreover have "date p = ?today" using dts unfolding ps upt_shift_map by simp
    ultimately show ?thesis using True by (simp add: p4 ps)
  qed
  from a b c show ?thesis by (simp add: effectiveProjectionDays_empty)
qed

text \<open>The amended claim C6 at the clock reading 2026-01-01, balance 100 and no profile.\<close>

theorem flat_series_without_data_witness:
  "projectionDisabled None
   \<and> map balance (forecastData (generateMockForecast exampleClock 100 [] [] None))
       = replicate 32 100
   \<and> potentialShortfallDate (generateMockForecast exampleClock 100 [] [] None) = None"
proof -
  have h: "projectionDisabled None" by (simp add: projectionDisabled_def)
  show ?thesis using h flat_series_without_data [OF h, of exampleClock 100] by simp
qed

subsection \<open>Loan projection\<close>

lemma iteration_date:
  "setHours0 (setDate (setHours0 now) (getDate (setHours0 now) + i))
     = setHours0 now + i * msPerDay"
  by (simp add: setDate_add setHours0_add setHours0_idem)

lemma loanLoop_fold:
  "loanLoop today loan days i st = fold (loanStep today loan) [i..days] st"
proof (induction today loan days i st rule: loanLoop.induct)
  case (1 today loan days i st)
  show ?case
  proof (cases "i \<le> days")
    case True
    then have "[i..days] = i # [i + 1..days]" by (simp add: upto_rec1)
    with True 1 show ?thesis by (subst loanLoop.simps) simp
  next
    case False
    then show ?thesis by (subst loanLoop.simps) simp
  qed
qed

lemma loanStep_other_day:
  "setHours0 now + i * msPerDay \<noteq> snd st \<Longrightarrow> loanStep (setHours0 now) loan i st = st"
  by (simp add: loanStep_def Let_def iteration_date)

lemma loanStep_payment_day:
  "loanStep (setHours0 now) loan i (m, setHours0 now + i * msPerDay)
     = (m(toDateKey (setHours0 now + i * msPerDay) \<mapsto>
            getOr0 m (toDateKey (setHours0 now + i * msPerDay)) - loan_amount loan),
        advanceLoan (paymentFrequency loan) (setHours0 now + i * msPerDay))"
  by (simp add: loanStep_def Let_def iteration_date)

lemma fold_loanStep_other_days:
  "(\<And>k. k \<in> set ks \<Longrightarrow> setHours0 now + k * msPerDay \<noteq> snd st)
     \<Longrightarrow> fold (loanStep (setHours0 now) loan) ks st = st"
  by (induction ks) (simp_all add: loanStep_other_day)

lemma loanStep_other_key:
  "toDateKey (setHours0 now + i * msPerDay) \<noteq> key
     \<Longrightarrow> fst (loanStep (setHours0 now) loan i st) key = fst st key"
  by (auto simp add: loanStep_def Let_def iteration_date)

lemma fold_loanStep_other_keys:
  "(\<And>k. k \<in> set ks \<Longrightarrow> toDateKey (setHours0 now + k * msPerDay) \<noteq> key)
     \<Longrightarrow> fst (fold (loanStep (setHours0 now) loan) ks st) key = fst st key"
  by (induction ks arbitrary: st) (simp_all add: loanStep_other_key)

lemma projectLoans_append:
  "projectLoans today days (xs @ ys) m = projectLoans today days ys (projectLoans today days xs m)"
  by (induction xs arbitrary: m) simp_all

text \<open>
  Claim C10. A loan whose next payment date, set to midnight, is strictly before today is
  never matched by the loan walk, which compares it with the days from today on: the walk
  returns the aggregation map as it received it and the local next payment date as it
  started. Such a loan in the profile's list therefore changes nothing: the aggregation is
  the same with the loan removed from the list.
\<close>

theorem past_due_loan_is_skipped:
  assumes "setHours0 (nextPaymentDate loan) < setHours0 (clock 0)"
  shows "projectLoan (setHours0 (clock 0)) days loan m = (m, setHours0 (nextPaymentDate loan))
     \<and> projectLoans (setHours0 (clock 0)) days (before @ loan # after) m
         = projectLoans (setHours0 (clock 0)) days (before @ after) m"
proof -
  have "setHours0 (clock 0) + k * msPerDay \<noteq> setHours0 (nextPaymentDate loan)"
    if "k \<in> set [0..days]" for k
  proof -
    from that have "0 \<le> k" by simp
    then have "0 \<le> k * msPerDay" using msPerDay_pos by simp
    with assms show ?thesis by linarith
  qed
  then have a: "projectLoan (setHours0 (clock 0)) days loan m' = (m', setHours0 (nextPaymentDate loan))"
    for m'
    by (simp only: projectLoan_def loanLoop_fold) (rule fold_loanStep_other_days, simp)
  show ?thesis
    by (simp add: a projectLoans_append)
qed

text \<open>Claim C10 at the clock reading 2026-01-01 and a loan due on 2025-12-01.\<close>

theorem past_due_loan_is_skipped_witness:
  "setHours0 (nextPaymentDate pastLoan) < setHours0 (exampleClock 0)
   \<and> projectLoan (setHours0 (exampleClock 0)) 30 pastLoan Map.empty
       = (Map.empty, setHours0 (nextPaymentDate pastLoan))
   \<and> projectLoans (setHours0 (exampleClock 0)) 30 [pastLoan] Map.empty = Map.empty"
proof -
  have h: "setHours0 (nextPaymentDate pastLoan) < setHours0 (exampleClock 0)"
    by (simp add: pastLoan_def exampleClock_def setHours0_def Day_def msPerDay_def)
  show ?thesis
    using h past_due_loan_is_skipped [where loan = pastLoan and clock = exampleClock
        and days = 30 and m = Map.empty and before = "[]" and after = "[]"]
    by simp
qed

subsection \<open>Salary projection\<close>

text \<open>
  Claim C4 (monthly salary, gross 30000, deductions summing to 5000) says that every
  projected salary payment has the amount 25000 and falls on the 15th. At the clock reading
  2026-01-01, with no income and no expense, the engine returns two payments of 25000: one
  on 2026-01-15 and one on 2026-01-31. When the cursor is after the 15th,
  \<^verbatim>\<open>getNextPayday\<close> first moves to the 15th of the next month; its last test (meant to
  correct a day that overflowed into the next month) then sees a month different from the
  cursor's and replaces the date by the last day of the cursor's month.
\<close>

theorem monthly_salary_paid_on_last_day:
  "map income_amount
     (projectedSalaryPayments (generateMockForecast exampleClock 100 [] [] (Some salaryProfile)))
     = [25000, 25000]
   \<and> map (toDateKey \<circ> dueDate)
       (projectedSalaryPayments (generateMockForecast exampleClock 100 [] [] (Some salaryProfile)))
     = [(2026, 1, 15), (2026, 1, 31)]"
  by code_simp

subsection \<open>Termination and bounds\<close>

lemma walkLoop_funpow:
  "walkLoop m days i w = (walkStep m ^^ nat (days + 1 - i)) w"
proof (induction m days i w rule: walkLoop.induct)
  case (1 m days i w)
  show ?case
  proof (cases "i \<le> days")
    case True
    then have n: "nat (days + 1 - i) = Suc (nat (days + 1 - (i + 1)))" by simp
    show ?thesis
      by (simp only: walkLoop_unfold [OF True] 1 [OF True] n funpow_Suc_right comp_apply)
  next
    case False
    then show ?thesis by (simp add: walkLoop_done)
  qed
qed

lemma salaryLoop_stop:
  "\<not> (tempDate s \<le> limitDate \<and> loopCount s < 100)
     \<Longrightarrow> salaryLoop clock frequency a limitDate s = s"
  by (subst salaryLoop.simps) auto

lemma salaryLoop_none:
  "getNextPayday (tempDate s) frequency = None
     \<Longrightarrow> salaryLoop clock frequency a limitDate s = s"
  by (subst salaryLoop.simps) auto

lemma salaryLoop_exit:
  "getNextPayday (tempDate s) frequency = Some nextPay \<Longrightarrow> limitDate < nextPay
     \<Longrightarrow> salaryLoop clock frequency a limitDate s = s"
  by (subst salaryLoop.simps) auto

lemma salaryLoop_step:
  "tempDate s \<le> limitDate \<and> loopCount s < 100
     \<Longrightarrow> getNextPayday (tempDate s) frequency = Some nextPay
     \<Longrightarrow> nextPay \<le> limitDate
     \<Longrightarrow> salaryLoop clock frequency a limitDate s
         = salaryLoop clock frequency a limitDate
             \<lparr> tempDate = setDate nextPay (getDate nextPay + 1),
               loopCount = loopCount s + 1,
               salaryTransactions =
                 (salaryTransactions s)(toDateKey nextPay \<mapsto>
                    getOr0 (salaryTransactions s) (toDateKey nextPay) + a),
               salaryPayments = salaryPayments s @
                 [\<lparr> income_id = SalaryId (toDateKey nextPay) (loopCount s),
                    client = SalaryPayment frequency,
                    income_amount = a,
                    dueDate = nextPay,
                    status = Outstanding,
                    income_createdAt = clock (loopCount s + 1) \<rparr>] \<rparr>"
  by (subst salaryLoop.simps) auto

lemma salaryLoop_count:
  "loopCount (salaryLoop clock frequency a limitDate s) \<le> max 100 (loopCount s)
   \<and> length (salaryPayments (salaryLoop clock frequency a limitDate s)) + loopCount s
       = length (salaryPayments s) + loopCount (salaryLoop clock frequency a limitDate s)"
proof (induction clock frequency a limitDate s rule: salaryLoop.induct)
  case (1 clock frequency a limitDate s)
  show ?case
  proof (cases "tempDate s \<le> limitDate \<and> loopCount s < 100")
    case False
    then show ?thesis by (simp add: salaryLoop_stop)
  next
    case True
    show ?thesis
    proof (cases "getNextPayday (tempDate s) frequency")
      case None
      then show ?thesis by (simp add: salaryLoop_none)
    next
      case (Some nextPay)
      show ?thesis
      proof (cases "nextPay \<le> limitDate")
        case False
        with Some show ?thesis by (simp add: salaryLoop_exit)
      next
        case le: True
        from 1 [OF True Some le] True show ?thesis
          unfolding salaryLoop_step [OF True Some le] by (simp add: max_def split: if_splits)
      qed
    qed
  qed
qed

lemma projectSalary_count:
  "length (salaryPayments (projectSalary clock today days up m)) \<le> 100"
proof -
  have "length (salaryPayments (salaryLoop clock f a limitDate
          \<lparr> tempDate = today, loopCount = 0, salaryTransactions = m, salaryPayments = [] \<rparr>)) \<le> 100"
    for f a limitDate
    using salaryLoop_count [of clock f a limitDate
        "\<lparr> tempDate = today, loopCount = 0, salaryTransactions = m, salaryPayments = [] \<rparr>"]
    by simp
  then show ?thesis
    by (simp add: projectSalary_def Let_def split: option.splits)
qed

text \<open>
  Claim C9. Every loop of the engine is bounded. The salary loop counts its iterations in
  \<open>loopCount\<close>, never continues at 100, and pushes one payment per counted iteration, so
  that the engine returns at most 100 projected salary payments; it returns at once when
  the computed payday is after the limit date (the day after the end of the horizon). The
  loan walk is the fold of its body over the indices \<open>i, ..., days\<close>, the daily walk is
  its body iterated \<open>days + 1 - i\<close> times, and the returned series has
  \<open>effectiveProjectionDays + 2\<close> points. The scans and the aggregation of incomes and
  expenses are primitive recursions over the input lists. All functions of the embedding
  are total: each \<^theory_text>\<open>function\<close> above comes with its termination proof.
\<close>

theorem loops_are_bounded:
  "loopCount (salaryLoop clock frequency a limitDate s) \<le> max 100 (loopCount s)
   \<and> length (salaryPayments (salaryLoop clock frequency a limitDate s)) + loopCount s
       = length (salaryPayments s) + loopCount (salaryLoop clock frequency a limitDate s)
   \<and> (\<forall>nextPay. getNextPayday (tempDate s) frequency = Some nextPay \<longrightarrow> limitDate < nextPay
         \<longrightarrow> salaryLoop clock frequency a limitDate s = s)
   \<and> length (projectedSalaryPayments
               (generateMockForecast clock currentBalance incomes expenses userProfile)) \<le> 100
   \<and> loanLoop today loan days i st = fold (loanStep today loan) [i..days] st
   \<and> walkLoop m days i w = (walkStep m ^^ nat (days + 1 - i)) w
   \<and> length (forecastData
               (generateMockForecast clock currentBalance incomes expenses userProfile))
       = nat (effectiveProjectionDays (setHours0 (clock 0)) incomes expenses + 2)"
proof -
  have "length (projectedSalaryPayments
               (generateMockForecast clock currentBalance incomes expenses userProfile)) \<le> 100"
    by (simp add: generateMockForecast_def Let_def projectSalary_count)
  moreover have "length (forecastData
               (generateMockForecast clock currentBalance incomes expenses userProfile))
       = nat (effectiveProjectionDays (setHours0 (clock 0)) incomes expenses + 2)"
  proof -
    have "nat (effectiveProjectionDays (setHours0 (clock 0)) incomes expenses + 2)
          = Suc (nat (effectiveProjectionDays (setHours0 (clock 0)) incomes expenses + 1))"
      using effectiveProjectionDays_ge [of "setHours0 (clock 0)" incomes expenses] by simp
    then show ?thesis
      using gmf_walk [of clock currentBalance incomes expenses userProfile] by auto
  qed
  ultimately show ?thesis
    using salaryLoop_count [of clock frequency a limitDate s]
    by (simp only: loanLoop_fold walkLoop_funpow) (auto simp: salaryLoop_exit)
qed

text \<open>Claim C9 at the salary loop of \<open>salaryProfile\<close> with the cursor and the limit date
  at 2026-02-01: the next payday is 2026-02-15, after the limit, and the loop returns its
  state.\<close>

theorem loops_are_bounded_witness:
  "getNextPayday (tempDate februaryState) Monthly = Some 1771113600000
   \<and> (1769904000000 :: int) < 1771113600000
   \<and> salaryLoop exampleClock Monthly 25000 1769904000000 februaryState = februaryState"
proof -
  have h: "getNextPayday (tempDate februaryState) Monthly = Some 1771113600000"
    by code_simp
  show ?thesis
    using h loops_are_bounded [where s = februaryState and frequency = Monthly
        and limitDate = 1769904000000 and clock = exampleClock and a = 25000]
    by simp
qed

subsection \<open>Dependence on the clock\<close>

lemma salaryLoop_clock:
  "tempDate s2 = tempDate s1 \<Longrightarrow> loopCount s2 = loopCount s1
   \<Longrightarrow> salaryTransactions s2 = salaryTransactions s1
   \<Longrightarrow> map withoutCreatedAt (salaryPayments s2) = map withoutCreatedAt (salaryPayments s1)
   \<Longrightarrow> salaryTransactions (salaryLoop clock2 frequency a limitDate s2)
         = salaryTransactions (salaryLoop clock1 frequency a limitDate s1)
       \<and> map withoutCreatedAt (salaryPayments (salaryLoop clock2 frequency a limitDate s2))
         = map withoutCreatedAt (salaryPayments (salaryLoop clock1 frequency a limitDate s1))"
proof (induction clock1 frequency a limitDate s1 arbitrary: s2 rule: salaryLoop.induct)
  case (1 clock1 frequency a limitDate s1)
  show ?case
  proof (cases "tempDate s1 \<le> limitDate \<and> loopCount s1 < 100")
    case False
    moreover from False have "\<not> (tempDate s2 \<le> limitDate \<and> loopCount s2 < 100)"
      using "1.prems" by simp
    ultimately show ?thesis using "1.prems" by (simp add: salaryLoop_stop)
  next
    case True
    then have True2: "tempDate s2 \<le> limitDate \<and> loopCount s2 < 100"
      using "1.prems" by simp
    show ?thesis
    proof (cases "getNextPayday (tempDate s1) frequency")
      case None
      moreover from None have "getNextPayday (tempDate s2) frequency = None"
        using "1.prems" by simp
      ultimately show ?thesis using "1.prems" by (simp add: salaryLoop_none)
    next
      case (Some nextPay)
      then have Some2: "getNextPayday (tempDate s2) frequency = Some nextPay"
        using "1.prems" by simp
      show ?thesis
      proof (cases "nextPay \<le> limitDate")
        case False
        with Some Some2 show ?thesis using "1.prems" by (simp add: salaryLoop_exit)
      next
        case le: True
        show ?thesis
          unfolding salaryLoop_step [OF True Some le] salaryLoop_step [OF True2 Some2 le]
          by (rule "1.IH" [OF True Some le])
            (use "1.prems" in \<open>simp_all add: withoutCreatedAt_def\<close>)
      qed
    qed
  qed
qed

lemma salaryLoop_createdAt:
  "map income_createdAt (salaryPayments s) = map (\<lambda>k. clock (k + 1)) [n..<loopCount s]
   \<Longrightarrow> n \<le> loopCount s
   \<Longrightarrow> map income_createdAt (salaryPayments (salaryLoop clock frequency a limitDate s))
       = map (\<lambda>k. clock (k + 1)) [n..<loopCount (salaryLoop clock frequency a limitDate s)]"
proof (induction clock frequency a limitDate s rule: salaryLoop.induct)
  case (1 clock frequency a limitDate s)
  show ?case
  proof (cases "tempDate s \<le> limitDate \<and> loopCount s < 100")
    case False
    then show ?thesis using "1.prems" by (simp add: salaryLoop_stop)
  next
    case True
    show ?thesis
    proof (cases "getNextPayday (tempDate s) frequency")
      case None
      then show ?thesis using "1.prems" by (simp add: salaryLoop_none)
    next
      case (Some nextPay)
      show ?thesis
      proof (cases "nextPay \<le> limitDate")
        case False
        with Some show ?thesis using "1.prems" by (simp add: salaryLoop_exit)
      next
        case le: True
        show ?thesis
          unfolding salaryLoop_step [OF True Some le]
          by (rule "1.IH" [OF True Some le]) (use "1.prems" in simp_all)
      qed
    qed
  qed
qed

lemma projectSalary_clock:
  "salaryTransactions (projectSalary clock2 today days up m)
     = salaryTransactions (projectSalary clock1 today days up m)
   \<and> map withoutCreatedAt (salaryPayments (projectSalary clock2 today days up m))
     = map withoutCreatedAt (salaryPayments (projectSalary clock1 today days up m))"
  using salaryLoop_clock [of
      "\<lparr> tempDate = today, loopCount = 0, salaryTransactions = m, salaryPayments = [] \<rparr>"
      "\<lparr> tempDate = today, loopCount = 0, salaryTransactions = m, salaryPayments = [] \<rparr>"
      clock2 _ _ _ clock1]
  by (simp add: projectSalary_def Let_def split: option.splits)

lemma projectSalary_createdAt:
  "map income_createdAt (salaryPayments (projectSalary clock today days up m))
     = map (\<lambda>k. clock (k + 1))
         [0..<length (salaryPayments (projectSalary clock today days up m))]"
proof -
  let ?s0 = "\<lparr> tempDate = today, loopCount = 0, salaryTransactions = m, salaryPayments = [] \<rparr>"
  have "map income_createdAt (salaryPayments (salaryLoop clock f a limitDate ?s0))
       = map (\<lambda>k. clock (k + 1))
           [0..<length (salaryPayments (salaryLoop clock f a limitDate ?s0))]" for f a limitDate
    using salaryLoop_createdAt [of ?s0 clock 0 f a limitDate]
      salaryLoop_count [of clock f a limitDate ?s0] by simp
  then show ?thesis
    by (simp add: projectSalary_def Let_def split: option.splits)
qed

text \<open>
  Claim C8, as stated, asks for identical outputs, every field of every projected salary
  payment included, whenever the inputs and today are the same. The two clocks below read
  the same day, five seconds apart; for the same balance and profile the engine returns
  different results, because each payment records the clock reading at its creation in
  \<^verbatim>\<open>createdAt\<close>.
\<close>

theorem same_today_different_createdAt:
  "setHours0 (exampleClock 0) = setHours0 (laterClock 0)
   \<and> generateMockForecast exampleClock 100 [] [] (Some salaryProfile)
       \<noteq> generateMockForecast laterClock 100 [] [] (Some salaryProfile)"
proof -
  have a: "map income_createdAt (projectedSalaryPayments
             (generateMockForecast exampleClock 100 [] [] (Some salaryProfile)))
           = [1767225601000, 1767225602000]"
    by code_simp
  have b: "map income_createdAt (projectedSalaryPayments
             (generateMockForecast laterClock 100 [] [] (Some salaryProfile)))
           = [1767225606000, 1767225607000]"
    by code_simp
  have c: "setHours0 (exampleClock 0) = setHours0 (laterClock 0)"
    by (simp add: exampleClock_def laterClock_def setHours0_def Day_def msPerDay_def)
  from a b have "generateMockForecast exampleClock 100 [] [] (Some salaryProfile)
       \<noteq> generateMockForecast laterClock 100 [] [] (Some salaryProfile)"
    by auto
  with c show ?thesis by simp
qed

text \<open>
  Claim C8, amended. Two invocations with identical inputs whose first clock readings fall
  on the same day return the same series, the same shortfall date, and lists of projected
  salary payments that agree in every field except \<^verbatim>\<open>createdAt\<close>; the \<^verbatim>\<open>createdAt\<close> of
  the payment number \<open>k\<close> is the clock reading number \<open>k + 1\<close> of its own invocation.
\<close>

theorem same_today_same_forecast:
  assumes "setHours0 (clock1 0) = setHours0 (clock2 0)"
  shows "forecastData (generateMockForecast clock1 currentBalance incomes expenses userProfile)
       = forecastData (generateMockForecast clock2 currentBalance incomes expenses userProfile)
     \<and> potentialShortfallDate
         (generateMockForecast clock1 currentBalance incomes expenses userProfile)
       = potentialShortfallDate
           (generateMockForecast clock2 currentBalance incomes expenses userProfile)
     \<and> map withoutCreatedAt (projectedSalaryPayments
           (generateMockForecast clock1 currentBalance incomes expenses userProfile))
       = map withoutCreatedAt (projectedSalaryPayments
           (generateMockForecast clock2 currentBalance incomes expenses userProfile))
     \<and> map income_createdAt (projectedSalaryPayments
           (generateMockForecast clock1 currentBalance incomes expenses userProfile))
       = map (\<lambda>k. clock1 (k + 1))
           [0..<length (projectedSalaryPayments
              (generateMockForecast clock1 currentBalance incomes expenses userProfile))]"
proof -
  have tr: "transactionsByDay clock1 incomes expenses userProfile
          = transactionsByDay clock2 incomes expenses userProfile"
    using projectSalary_clock [of clock1 _ _ userProfile _ clock2]
    by (simp add: transactionsByDay_def Let_def assms)
  show ?thesis
    using projectSalary_clock [of clock1 _ _ userProfile _ clock2]
    by (simp add: generateMockForecast_def Let_def tr assms projectSalary_createdAt)
qed

text \<open>The amended claim C8 at the two example clocks and the monthly salary profile.\<close>

theorem same_today_same_forecast_witness:
  "setHours0 (exampleClock 0) = setHours0 (laterClock 0)
   \<and> forecastData (generateMockForecast exampleClock 100 [] [] (Some salaryProfile))
       = forecastData (generateMockForecast laterClock 100 [] [] (Some salaryProfile))
   \<and> map withoutCreatedAt (projectedSalaryPayments
         (generateMockForecast exampleClock 100 [] [] (Some salaryProfile)))
       = map withoutCreatedAt (projectedSalaryPayments
         (generateMockForecast laterClock 100 [] [] (Some salaryProfile)))"
proof -
  have h: "setHours0 (exampleClock 0) = setHours0 (laterClock 0)"
    by (simp add: exampleClock_def laterClock_def setHours0_def Day_def msPerDay_def)
  show ?thesis
    using h same_today_same_forecast [where ?clock1.0 = exampleClock and ?clock2.0 = laterClock
        and currentBalance = 100 and incomes = "[]" and expenses = "[]"
        and userProfile = "Some salaryProfile"]
    by simp
qed

subsection \<open>Recurrence of loan payments\<close>

lemma msPerDay_neq0: "msPerDay \<noteq> 0"
  using msPerDay_pos by simp

text \<open>
  Claim C5, as stated, says that for a monthly loan of 2000 whose next payment is three days
  after today a second deduction of 2000 appears about one calendar month later. With that
  loan alone (no income, no expense, no salary) the horizon is 30 days and the second
  payment date, 2026-02-04, is day 34: the balance is 0 up to day 2 and stays at -2000 from
  day 3 to the end of the series, so the loan has been deducted once only.
\<close>

theorem single_loan_deduction_in_short_horizon:
  "map balance (forecastData (generateMockForecast exampleClock 0 [] [] (Some loanProfile)))
     = replicate 4 0 @ replicate 28 (- 2000)"
  by code_simp

text \<open>
  Claim C5, amended. For every loan, on the walk day that equals the loan's current
  next payment date the loan amount is subtracted in the aggregation at that day, and the
  next payment date advances by the calendar (\<^verbatim>\<open>setMonth\<close> + 1 for monthly, + 3 for
  quarterly, \<^verbatim>\<open>setFullYear\<close> + 1 for annually, set to midnight). In particular, for a
  monthly loan whose next payment date is today + 3 days, the aggregation at day 3 has
  the loan amount subtracted, and the next payment date becomes day \<open>j\<close>, one calendar
  month later, with \<open>j\<close> from 31 to 34 according to the length of the month. When day \<open>j\<close>
  lies within the horizon (\<open>j \<le> days\<close>) the amount is subtracted a second time there; when
  it lies beyond the horizon, as it always does for the minimum horizon of 30 days, the loan
  walk subtracts the amount at day 3 only.
\<close>

theorem loan_walk_recurrence:
  "loanStep (setHours0 (clock 0)) anyLoan i (m', setHours0 (clock 0) + i * msPerDay)
     = (m'(toDateKey (setHours0 (clock 0) + i * msPerDay) \<mapsto>
             getOr0 m' (toDateKey (setHours0 (clock 0) + i * msPerDay)) - loan_amount anyLoan),
        advanceLoan (paymentFrequency anyLoan) (setHours0 (clock 0) + i * msPerDay))
   \<and> advanceLoan LoanMonthly t = setHours0 (setMonth t (getMonth t + 1))
   \<and> advanceLoan LoanQuarterly t = setHours0 (setMonth t (getMonth t + 3))
   \<and> advanceLoan LoanAnnually t = setHours0 (setFullYear t (getFullYear t + 1))
   \<and> (paymentFrequency loan = LoanMonthly
        \<and> setHours0 (nextPaymentDate loan) = setHours0 (clock 0) + 3 * msPerDay
        \<and> 3 \<le> days
      \<longrightarrow> (\<exists>j. 31 \<le> j \<and> j \<le> 34
            \<and> advanceLoan LoanMonthly (setHours0 (clock 0) + 3 * msPerDay)
                = setHours0 (clock 0) + j * msPerDay
            \<and> fst (projectLoan (setHours0 (clock 0)) days loan m)
                  (toDateKey (setHours0 (clock 0) + 3 * msPerDay))
                = Some (getOr0 m (toDateKey (setHours0 (clock 0) + 3 * msPerDay))
                        - loan_amount loan)
            \<and> (j \<le> days \<longrightarrow>
                 fst (projectLoan (setHours0 (clock 0)) days loan m)
                   (toDateKey (setHours0 (clock 0) + j * msPerDay))
                 = Some (getOr0 m (toDateKey (setHours0 (clock 0) + j * msPerDay))
                         - loan_amount loan))
            \<and> (days < j \<longrightarrow>
                 projectLoan (setHours0 (clock 0)) days loan m
                 = (m(toDateKey (setHours0 (clock 0) + 3 * msPerDay) \<mapsto>
                        getOr0 m (toDateKey (setHours0 (clock 0) + 3 * msPerDay))
                        - loan_amount loan),
                    setHours0 (clock 0) + j * msPerDay))))"
proof -
  let ?T = "setHours0 (clock 0)"
  let ?step = "loanStep ?T loan"
  let ?k3 = "toDateKey (?T + 3 * msPerDay)"
  let ?m1 = "m(?k3 \<mapsto> getOr0 m ?k3 - loan_amount loan)"
  have month: "\<exists>j. 31 \<le> j \<and> j \<le> 34
      \<and> advanceLoan LoanMonthly (?T + 3 * msPerDay) = ?T + j * msPerDay"
  proof -
    have mid: "setHours0 (clock 0 + 3 * msPerDay) = ?T + 3 * msPerDay"
      by (rule setHours0_add)
    from setMonth_next [of "clock 0 + 3 * msPerDay"] obtain n where
      n: "28 \<le> n" "n \<le> 31"
      and adv: "setHours0 (setMonth (?T + 3 * msPerDay) (getMonth (?T + 3 * msPerDay) + 1))
                 = ?T + 3 * msPerDay + n * msPerDay"
      unfolding mid by blast
    have "advanceLoan LoanMonthly (?T + 3 * msPerDay) = ?T + (3 + n) * msPerDay"
      by (simp only: advanceLoan_def payment_frequency.case adv) (simp add: algebra_simps)
    with n show ?thesis by (intro exI [of _ "3 + n"]) simp
  qed
  have particular: "\<exists>j. 31 \<le> j \<and> j \<le> 34
      \<and> advanceLoan LoanMonthly (?T + 3 * msPerDay) = ?T + j * msPerDay
      \<and> fst (projectLoan ?T days loan m) ?k3 = Some (getOr0 m ?k3 - loan_amount loan)
      \<and> (j \<le> days \<longrightarrow> fst (projectLoan ?T days loan m) (toDateKey (?T + j * msPerDay))
                          = Some (getOr0 m (toDateKey (?T + j * msPerDay)) - loan_amount loan))
      \<and> (days < j \<longrightarrow> projectLoan ?T days loan m = (?m1, ?T + j * msPerDay))"
    if freq: "paymentFrequency loan = LoanMonthly"
      and first: "setHours0 (nextPaymentDate loan) = ?T + 3 * msPerDay"
      and d3: "3 \<le> days"
  proof -
    from month obtain j where j31: "31 \<le> j" and j34: "j \<le> 34"
      and second: "advanceLoan LoanMonthly (?T + 3 * msPerDay) = ?T + j * msPerDay"
      by blast
    let ?kj = "toDateKey (?T + j * msPerDay)"
    have j3: "3 < j" using j31 by simp
    have split3: "[0..days] = [0..2] @ 3 # [4..days]"
      using upto_split3 [of 0 3 days] d3 by simp
    have before: "fold ?step [0..2] (m, ?T + 3 * msPerDay) = (m, ?T + 3 * msPerDay)"
      by (rule fold_loanStep_other_days) (simp add: msPerDay_neq0)
    have at3: "?step 3 (m, ?T + 3 * msPerDay) = (?m1, ?T + j * msPerDay)"
      using loanStep_payment_day [of "clock 0" loan 3 m] by (simp add: freq second)
    have run: "projectLoan ?T days loan m = fold ?step [4..days] (?m1, ?T + j * msPerDay)"
      by (simp add: projectLoan_def loanLoop_fold first split3 before at3)
    have a: "fst (projectLoan ?T days loan m) ?k3 = Some (getOr0 m ?k3 - loan_amount loan)"
    proof -
      have "fst (fold ?step [4..days] (?m1, ?T + j * msPerDay)) ?k3
              = fst (?m1, ?T + j * msPerDay) ?k3"
        by (rule fold_loanStep_other_keys) (simp add: toDateKey_add_neq)
      then show ?thesis by (simp add: run)
    qed
    have b: "fst (projectLoan ?T days loan m) ?kj = Some (getOr0 m ?kj - loan_amount loan)"
      if jd: "j \<le> days"
    proof -
      let ?m2 = "?m1(?kj \<mapsto> getOr0 ?m1 ?kj - loan_amount loan)"
      let ?n2 = "advanceLoan (paymentFrequency loan) (?T + j * msPerDay)"
      have splitj: "[4..days] = [4..j - 1] @ j # [j + 1..days]"
        using upto_split3 [of 4 j days] j3 jd by simp
      have until: "fold ?step [4..j - 1] (?m1, ?T + j * msPerDay) = (?m1, ?T + j * msPerDay)"
        by (rule fold_loanStep_other_days) (simp add: msPerDay_neq0)
      have atj: "?step j (?m1, ?T + j * msPerDay) = (?m2, ?n2)"
        using loanStep_payment_day [of "clock 0" loan j ?m1] by simp
      have run2: "projectLoan ?T days loan m = fold ?step [j + 1..days] (?m2, ?n2)"
        by (simp only: run splitj fold_append fold_simps comp_apply until atj)
      have after: "fst (fold ?step [j + 1..days] (?m2, ?n2)) ?kj = fst (?m2, ?n2) ?kj"
        by (rule fold_loanStep_other_keys) (simp add: toDateKey_add_neq)
      have "?kj \<noteq> ?k3" using j3 by (simp add: toDateKey_add_neq)
      then have g: "getOr0 ?m1 ?kj = getOr0 m ?kj" by (simp add: getOr0_def)
      show ?thesis
        by (simp only: run2 after) (simp add: g)
    qed
    have c: "projectLoan ?T days loan m = (?m1, ?T + j * msPerDay)" if "days < j"
      unfolding run
      by (rule fold_loanStep_other_days) (use that in \<open>simp add: msPerDay_neq0\<close>)
    from j31 j34 second a b c show ?thesis by blast
  qed
  show ?thesis
    using particular
    by (simp only: loanStep_payment_day advanceLoan_def payment_frequency.case) blast
qed

text \<open>The amended claim C5 for the example loan, today 2026-01-01 and a horizon of 40
  days: the deductions are on 2026-01-04 and on 2026-02-04, 31 days later; the payment
  after that is 28 days later again.\<close>

theorem loan_walk_recurrence_witness:
  "paymentFrequency exampleLoan = LoanMonthly
   \<and> setHours0 (nextPaymentDate exampleLoan) = setHours0 (exampleClock 0) + 3 * msPerDay
   \<and> (3 :: int) \<le> 40
   \<and> advanceLoan LoanMonthly (setHours0 (exampleClock 0) + 3 * msPerDay)
       = setHours0 (exampleClock 0) + 34 * msPerDay
   \<and> fst (projectLoan (setHours0 (exampleClock 0)) 40 exampleLoan Map.empty)
         (toDateKey (setHours0 (exampleClock 0) + 3 * msPerDay))
       = Some (- 2000)
   \<and> fst (projectLoan (setHours0 (exampleClock 0)) 40 exampleLoan Map.empty)
         (toDateKey (setHours0 (exampleClock 0) + 34 * msPerDay))
       = Some (- 2000)
   \<and> toDateKey (setHours0 (exampleClock 0) + 3 * msPerDay) = (2026, 1, 4)
   \<and> toDateKey (setHours0 (exampleClock 0) + 34 * msPerDay) = (2026, 2, 4)
   \<and> advanceLoan LoanMonthly (setHours0 (exampleClock 0) + 34 * msPerDay)
       = setHours0 (exampleClock 0) + 62 * msPerDay"
proof -
  let ?T = "setHours0 (exampleClock 0)"
  have h1: "paymentFrequency exampleLoan = LoanMonthly"
    by (simp add: exampleLoan_def)
  have h2: "setHours0 (nextPaymentDate exampleLoan) = ?T + 3 * msPerDay"
    by code_simp
  have h3: "advanceLoan LoanMonthly (?T + 3 * msPerDay) = ?T + 34 * msPerDay"
    by code_simp
  have h4: "advanceLoan LoanMonthly (?T + 34 * msPerDay) = ?T + 62 * msPerDay"
    by code_simp
  have k3: "toDateKey (?T + 3 * msPerDay) = (2026, 1, 4)"
    by code_simp
  have k34: "toDateKey (?T + 34 * msPerDay) = (2026, 2, 4)"
    by code_simp
  have amount: "loan_amount exampleLoan = 2000"
    by (simp add: exampleLoan_def)
  note particular = loan_walk_recurrence [where loan = exampleLoan and clock = exampleClock
      and days = 40 and m = Map.empty,
      THEN conjunct2, THEN conjunct2, THEN conjunct2, THEN conjunct2]
  have pre: "paymentFrequency exampleLoan = LoanMonthly
      \<and> setHours0 (nextPaymentDate exampleLoan) = ?T + 3 * msPerDay \<and> (3 :: int) \<le> 40"
    using h1 h2 by simp
  from particular [THEN mp, OF pre]
  obtain j where j: "advanceLoan LoanMonthly (?T + 3 * msPerDay) = ?T + j * msPerDay"
    and p3: "fst (projectLoan ?T 40 exampleLoan Map.empty) (toDateKey (?T + 3 * msPerDay))
             = Some (getOr0 Map.empty (toDateKey (?T + 3 * msPerDay)) - loan_amount exampleLoan)"
    and pj: "j \<le> 40 \<longrightarrow>
             fst (projectLoan ?T 40 exampleLoan Map.empty) (toDateKey (?T + j * msPerDay))
             = Some (getOr0 Map.empty (toDateKey (?T + j * msPerDay)) - loan_amount exampleLoan)"
    by blast
  from j h3 have "j = 34" by (simp add: msPerDay_neq0)
  with pj have p34:
    "fst (projectLoan ?T 40 exampleLoan Map.empty) (toDateKey (?T + 34 * msPerDay))
       = Some (getOr0 Map.empty (toDateKey (?T + 34 * msPerDay)) - loan_amount exampleLoan)"
    by simp
  from p3 p34 show ?thesis
    using h1 h2 h3 h4 k3 k34 by (simp add: getOr0_def amount)
qed

end
